theory Spec2Isabelle
  imports Complex_Main
begin

text \<open>
  The touch controls of the emulator player: the keyboard event bridge, the directional
  pad, the touch handlers of a virtual button and the container that holds the pressed
  set. Each component is embedded as functions on its state; the properties proved are
  those numbered C1 to C10.
\<close>

section \<open>Keyboard event bridge (utils/keyboardEvents.ts)\<close>

text \<open>
  Keyboard codes and button names are JavaScript strings; they are modelled as
  \<^typ>\<open>string\<close>. The codes the bridge handles are ASCII (\<open>KeyA\<close>, \<open>ArrowUp\<close>,
  \<open>Enter\<close>, ...), so \<open>toLowerCase\<close> is modelled on the letters \<open>A\<close> to \<open>Z\<close> and leaves
  every other character as it is.
\<close>

datatype key_type = keydown | keyup

text \<open>\<open>ControlMapping\<close> is an object from button names to keyboard codes; a missing
  property reads as \<open>undefined\<close>, here \<open>None\<close>.\<close>

type_synonym ControlMapping = "string \<rightharpoonup> string"

definition toLowerCase_char :: "char \<Rightarrow> char" where
  "toLowerCase_char c =
     (case map_of (zip ''ABCDEFGHIJKLMNOPQRSTUVWXYZ'' ''abcdefghijklmnopqrstuvwxyz'') c of
        Some l \<Rightarrow> l
      | None \<Rightarrow> c)"

definition toLowerCase :: "string \<Rightarrow> string" where
  "toLowerCase s = map toLowerCase_char s"

definition startsWith :: "string \<Rightarrow> string \<Rightarrow> bool" where
  "startsWith s p = (take (length p) s = p)"

text \<open>\<open>getKeyboardCode(buttonType, controls)\<close>. The table \<open>DEFAULT_CONTROLS\<close> is imported
  from a module that is not part of the sources at hand, so it is a parameter. The result
  \<open>None\<close> is \<open>null\<close>. An empty string in \<open>controls\<close> is falsy and falls through to the
  default table.\<close>

definition getKeyboardCode :: "ControlMapping \<Rightarrow> string \<Rightarrow> ControlMapping option \<Rightarrow> string option" where
  "getKeyboardCode DEFAULT_CONTROLS buttonType controls =
     (case controls of
        None \<Rightarrow> DEFAULT_CONTROLS buttonType
      | Some m \<Rightarrow>
          (case m buttonType of
             None \<Rightarrow> DEFAULT_CONTROLS buttonType
           | Some c \<Rightarrow> if c \<noteq> [] then Some c else DEFAULT_CONTROLS buttonType))"

definition getKeyName :: "string \<Rightarrow> string" where
  "getKeyName code =
     (if startsWith code ''Key'' then toLowerCase (drop 3 code)
      else if startsWith code ''Arrow'' then drop 5 code
      else if code = ''Enter'' then ''Enter''
      else if code = ''ShiftRight'' \<or> code = ''ShiftLeft'' then ''Shift''
      else code)"

record KeyboardEvent =
  ev_type :: key_type
  ev_code :: string
  ev_key :: string
  ev_bubbles :: bool
  ev_cancelable :: bool

text \<open>\<open>dispatchKeyboardEvent(type, code)\<close>: the first argument says whether \<open>getCanvas()\<close>
  finds a canvas. The result is the returned boolean and the event handed to the canvas,
  if any.\<close>

definition dispatchKeyboardEvent :: "bool \<Rightarrow> key_type \<Rightarrow> string \<Rightarrow> bool \<times> KeyboardEvent option" where
  "dispatchKeyboardEvent canvas ty code =
     (if \<not> canvas then (False, None)
      else (True, Some \<lparr>ev_type = ty, ev_code = code, ev_key = getKeyName code,
                        ev_bubbles = True, ev_cancelable = True\<rparr>))"

text \<open>The derivation rule as the specification words it: prefixes are stripped, nothing
  else happens to the remainder.\<close>

definition spec_getKeyName :: "string \<Rightarrow> string" where
  "spec_getKeyName code =
     (if startsWith code ''Key'' then drop 3 code
      else if startsWith code ''Arrow'' then drop 5 code
      else if code = ''Enter'' then ''Enter''
      else if code = ''ShiftLeft'' \<or> code = ''ShiftRight'' then ''Shift''
      else code)"

section \<open>Effects\<close>

text \<open>
  Every handler is a function from the component's properties, its state and the event to
  the new state and the list of effects it causes, in the order the source causes them.
  \<open>Dispatch ty code\<close> is a call \<open>dispatchKeyboardEvent(ty, code)\<close>; \<open>Vibrate\<close> is a call of
  \<open>navigator.vibrate\<close>; \<open>PositionChange\<close>, \<open>Press\<close>, \<open>PressDown\<close> and \<open>Release\<close> are calls of the
  callbacks \<open>onPositionChange\<close>, \<open>onPress\<close>, \<open>onPressDown\<close> and \<open>onRelease\<close>. Styling
  (\<open>updateVisuals\<close>) and \<open>preventDefault\<close>/\<open>stopPropagation\<close> cause no effect of these kinds
  and are left out. Numbers are real numbers.

  A JavaScript \<open>Set\<close> iterates in insertion order and holds no element twice; it is a list,
  filled with \<open>Set_add\<close>. \<open>forEach\<close> runs a body over the elements in order.

  Timers: \<open>setTimeout\<close> makes a fresh identifier and a pending callback; \<open>clearTimeout\<close>
  removes the pending callback of that identifier. A hold timer's callback keeps the touch
  coordinates it was created with.

  The properties of a component stay the same during a gesture, and a state update is
  visible to the next event.
\<close>

datatype Effect =
    Dispatch key_type string
  | Vibrate "nat list"
  | PositionChange real real
  | Press string
  | PressDown string
  | Release string

definition Set_add :: "'a \<Rightarrow> 'a list \<Rightarrow> 'a list" where
  "Set_add x xs = (if x \<in> set xs then xs else xs @ [x])"

definition Set_delete :: "'a \<Rightarrow> 'a list \<Rightarrow> 'a list" where
  "Set_delete x xs = filter (\<lambda>y. y \<noteq> x) xs"

fun forEach :: "('a \<Rightarrow> Effect list) \<Rightarrow> 'a list \<Rightarrow> Effect list" where
  "forEach body [] = []"
| "forEach body (x # xs) = body x @ forEach body xs"

definition clearTimeout :: "nat \<Rightarrow> (nat \<times> 'a) list \<Rightarrow> (nat \<times> 'a) list" where
  "clearTimeout t ts = filter (\<lambda>e. fst e \<noteq> t) ts"

fun isDispatch :: "Effect \<Rightarrow> bool" where
  "isDispatch (Dispatch ty code) = True"
| "isDispatch e = False"

fun isPositionChange :: "Effect \<Rightarrow> bool" where
  "isPositionChange (PositionChange px py) = True"
| "isPositionChange e = False"

definition keyboardEvents :: "Effect list \<Rightarrow> Effect list" where
  "keyboardEvents es = filter isDispatch es"

text \<open>\<open>Math.atan2(y, x)\<close> on real numbers: the angle of the point \<open>(x, y)\<close>, in
  \<open>(-\<pi>, \<pi>]\<close>, and \<open>0\<close> at the origin.\<close>

definition Math_atan2 :: "real \<Rightarrow> real \<Rightarrow> real" where
  "Math_atan2 y x =
     (if 0 < x then arctan (y / x)
      else if x < 0 then (if 0 \<le> y then arctan (y / x) + pi else arctan (y / x) - pi)
      else if 0 < y then pi / 2
      else if y < 0 then - (pi / 2)
      else 0)"

text \<open>The clamp both drag handlers apply to a percentage:
  \<open>Math.max(margin, Math.min(100 - margin, v))\<close>.\<close>

definition constrain :: "real \<Rightarrow> real \<Rightarrow> real" where
  "constrain margin v = max margin (min (100 - margin) v)"

text \<open>The margin both drag handlers compute before they clamp,
  \<open>(size / 2 / Math.min(containerWidth, containerHeight)) * 100\<close>, as a function of the
  size of the control and the dimensions of the container.\<close>

definition dragMargin :: "real \<Rightarrow> real \<Rightarrow> real \<Rightarrow> real" where
  "dragMargin size' width' height' = (size' / 2 / min width' height') * 100"

section \<open>Directional pad (Dpad)\<close>

datatype Direction = Up | Down | Left | Right

record DOMRect =
  rect_left :: real
  rect_top :: real
  rect_width :: real
  rect_height :: real

text \<open>The properties of the pad. \<open>dpad_onPositionChange\<close> says whether the callback is
  given; \<open>dpad_vibrate\<close> whether \<open>navigator.vibrate\<close> exists.\<close>

record DpadProps =
  dpad_size :: real
  dpad_x :: real
  dpad_y :: real
  dpad_containerWidth :: real
  dpad_containerHeight :: real
  dpad_controls :: "ControlMapping option"
  dpad_customPosition :: "(real \<times> real) option"
  dpad_onPositionChange :: bool
  dpad_vibrate :: bool

text \<open>\<open>dpad_dragStartRef\<close> is \<open>(x, y, touchX, touchY)\<close>; the time stamp of
  \<open>touchStartPosRef\<close> is never read and is left out.\<close>

record DpadState =
  activeTouchRef :: "nat option"
  activeDirectionsRef :: "Direction list"
  isDragging :: bool
  dpad_dragTimerRef :: "nat option"
  dpad_dragStartRef :: "real \<times> real \<times> real \<times> real"
  dpad_touchStartPosRef :: "real \<times> real"
  dpad_timers :: "(nat \<times> real \<times> real) list"
  dpad_nextTimer :: nat

text \<open>The constants of the pad; \<open>DRAG_HOLD_DELAY\<close>, in milliseconds, is also the constant of
  that name of the touch handlers of a button. Time does not pass in the model: a pending
  timer may fire at any later moment, as the event \<open>DTimerFire\<close> below; the pending timers
  of the pad are listed without their delay.\<close>

definition DRAG_HOLD_DELAY :: nat where
  "DRAG_HOLD_DELAY = 350"

definition CENTER_TOUCH_RADIUS :: real where
  "CENTER_TOUCH_RADIUS = 0.25"

text \<open>The radius around the centre inside which a touch-start arms the hold timer of the
  pad, as the specification words it: 25% of the pad's radius.\<close>

definition spec_centerRadius :: "DpadProps \<Rightarrow> real" where
  "spec_centerRadius p = (dpad_size p / 2) * 0.25"

definition Dpad_init :: DpadState where
  "Dpad_init = \<lparr>activeTouchRef = None, activeDirectionsRef = [], isDragging = False,
     dpad_dragTimerRef = None, dpad_dragStartRef = (0, 0, 0, 0),
     dpad_touchStartPosRef = (0, 0), dpad_timers = [], dpad_nextTimer = 1\<rparr>"

definition Dpad_displayX :: "DpadProps \<Rightarrow> real" where
  "Dpad_displayX p = (case dpad_customPosition p of Some c \<Rightarrow> fst c | None \<Rightarrow> dpad_x p)"

definition Dpad_displayY :: "DpadProps \<Rightarrow> real" where
  "Dpad_displayY p = (case dpad_customPosition p of Some c \<Rightarrow> snd c | None \<Rightarrow> dpad_y p)"

fun Direction_name :: "Direction \<Rightarrow> string" where
  "Direction_name Up = ''up''"
| "Direction_name Down = ''down''"
| "Direction_name Left = ''left''"
| "Direction_name Right = ''right''"

fun defaults :: "Direction \<Rightarrow> string" where
  "defaults Up = ''ArrowUp''"
| "defaults Down = ''ArrowDown''"
| "defaults Left = ''ArrowLeft''"
| "defaults Right = ''ArrowRight''"

text \<open>\<open>getKeyCode\<close>: without a mapping the arrow keys; with one, \<open>controls[direction] || ''\<close>.\<close>

definition getKeyCode :: "ControlMapping option \<Rightarrow> Direction \<Rightarrow> string" where
  "getKeyCode controls direction =
     (case controls of
        None \<Rightarrow> defaults direction
      | Some m \<Rightarrow> (case m (Direction_name direction) of None \<Rightarrow> [] | Some c \<Rightarrow> c))"

definition getDirectionsFromTouch :: "real \<Rightarrow> real \<Rightarrow> DOMRect \<Rightarrow> Direction list" where
  "getDirectionsFromTouch touchX touchY rect =
     (let centerX = rect_left rect + rect_width rect / 2;
          centerY = rect_top rect + rect_height rect / 2;
          dx = touchX - centerX;
          dy = touchY - centerY;
          distance = sqrt (dx * dx + dy * dy);
          deadZone = (rect_width rect / 2) * 0.15
      in if distance < deadZone then []
         else
           (let angle = Math_atan2 dy dx * (180 / pi);
                d1 = (if angle \<ge> -150 \<and> angle \<le> -30 then Set_add Up [] else []);
                d2 = (if angle \<ge> 30 \<and> angle \<le> 150 then Set_add Down d1 else d1);
                d3 = (if angle \<ge> 120 \<or> angle \<le> -120 then Set_add Left d2 else d2);
                d4 = (if angle \<ge> -60 \<and> angle \<le> 60 then Set_add Right d3 else d3)
            in d4))"

definition releaseKey :: "ControlMapping option \<Rightarrow> Direction \<Rightarrow> Effect list" where
  "releaseKey controls dir =
     (let keyCode = getKeyCode controls dir
      in if keyCode \<noteq> [] then [Dispatch keyup keyCode] else [])"

definition engageKey :: "DpadProps \<Rightarrow> Direction \<Rightarrow> Effect list" where
  "engageKey p dir =
     (let keyCode = getKeyCode (dpad_controls p) dir
      in if keyCode \<noteq> []
         then (if dpad_vibrate p then [Vibrate [5]] else []) @ [Dispatch keydown keyCode]
         else [])"

definition updateDirections :: "DpadProps \<Rightarrow> DpadState \<Rightarrow> Direction list \<Rightarrow> DpadState \<times> Effect list" where
  "updateDirections p s newDirections =
     (let prev = activeDirectionsRef s;
          ups = forEach (\<lambda>dir. if dir \<notin> set newDirections
                               then releaseKey (dpad_controls p) dir else []) prev;
          downs = forEach (\<lambda>dir. if dir \<notin> set prev then engageKey p dir else []) newDirections
      in (s\<lparr>activeDirectionsRef := newDirections\<rparr>, ups @ downs))"

definition Dpad_clearDragTimer :: "DpadState \<Rightarrow> DpadState" where
  "Dpad_clearDragTimer s =
     (case dpad_dragTimerRef s of
        None \<Rightarrow> s
      | Some t \<Rightarrow> s\<lparr>dpad_timers := clearTimeout t (dpad_timers s), dpad_dragTimerRef := None\<rparr>)"

definition Dpad_setTimeout :: "DpadState \<Rightarrow> real \<Rightarrow> real \<Rightarrow> DpadState" where
  "Dpad_setTimeout s touchX touchY =
     s\<lparr>dpad_timers := dpad_timers s @ [(dpad_nextTimer s, touchX, touchY)],
       dpad_dragTimerRef := Some (dpad_nextTimer s),
       dpad_nextTimer := dpad_nextTimer s + 1\<rparr>"

definition Dpad_startDragging :: "DpadProps \<Rightarrow> DpadState \<Rightarrow> real \<Rightarrow> real \<Rightarrow> DpadState \<times> Effect list" where
  "Dpad_startDragging p s touchX touchY =
     (s\<lparr>isDragging := True,
        dpad_dragStartRef := (Dpad_displayX p, Dpad_displayY p, touchX, touchY),
        activeDirectionsRef := []\<rparr>,
      forEach (releaseKey (dpad_controls p)) (activeDirectionsRef s)
        @ (if dpad_vibrate p then [Vibrate [10, 30, 10]] else []))"

text \<open>\<open>handleTouchStart\<close> of the pad: the touch is \<open>e.changedTouches[0]\<close>, the rectangle is
  \<open>dpadRef.current?.getBoundingClientRect()\<close>.\<close>

definition Dpad_handleTouchStart :: "DpadProps \<Rightarrow> DpadState \<Rightarrow> nat \<Rightarrow> real \<Rightarrow> real \<Rightarrow> DOMRect option \<Rightarrow> DpadState \<times> Effect list" where
  "Dpad_handleTouchStart p s identifier clientX clientY rectOpt =
     (if activeTouchRef s \<noteq> None then (s, [])
      else
        (let s1 = s\<lparr>activeTouchRef := Some identifier,
                    dpad_touchStartPosRef := (clientX, clientY)\<rparr>
         in case rectOpt of
              None \<Rightarrow> (s1, [])
            | Some rect \<Rightarrow>
                (let centerX = rect_left rect + rect_width rect / 2;
                     centerY = rect_top rect + rect_height rect / 2;
                     distFromCenter = sqrt ((clientX - centerX)\<^sup>2 + (clientY - centerY)\<^sup>2);
                     centerRadius = dpad_size p * CENTER_TOUCH_RADIUS;
                     s2 = (if distFromCenter < centerRadius \<and> dpad_onPositionChange p
                           then Dpad_setTimeout s1 clientX clientY else s1)
                 in if \<not> isDragging s2
                    then updateDirections p s2 (getDirectionsFromTouch clientX clientY rect)
                    else (s2, []))))"

definition Dpad_handleTouchMove :: "DpadProps \<Rightarrow> DpadState \<Rightarrow> (nat \<times> real \<times> real) list \<Rightarrow> DOMRect option \<Rightarrow> DpadState \<times> Effect list" where
  "Dpad_handleTouchMove p s changedTouches rectOpt =
     (case find (\<lambda>t. Some (fst t) = activeTouchRef s) changedTouches of
        None \<Rightarrow> (s, [])
      | Some touch \<Rightarrow>
          (let clientX = fst (snd touch); clientY = snd (snd touch)
           in if isDragging s \<and> dpad_onPositionChange p
              then
                (let (startX, startY, startTouchX, startTouchY) = dpad_dragStartRef s;
                     deltaX = clientX - startTouchX;
                     deltaY = clientY - startTouchY;
                     newXPercent = startX + (deltaX / dpad_containerWidth p) * 100;
                     newYPercent = startY + (deltaY / dpad_containerHeight p) * 100;
                     margin = (dpad_size p / 2 / min (dpad_containerWidth p) (dpad_containerHeight p)) * 100
                 in (s, [PositionChange (constrain margin newXPercent) (constrain margin newYPercent)]))
              else
                (let moveDistance = sqrt ((clientX - fst (dpad_touchStartPosRef s))\<^sup>2
                                          + (clientY - snd (dpad_touchStartPosRef s))\<^sup>2);
                     s1 = (if moveDistance > 15 then Dpad_clearDragTimer s else s)
                 in case rectOpt of
                      None \<Rightarrow> (s1, [])
                    | Some rect \<Rightarrow>
                        updateDirections p s1 (getDirectionsFromTouch clientX clientY rect))))"

text \<open>\<open>handleTouchEnd\<close> of the pad serves \<open>touchend\<close> and \<open>touchcancel\<close>; its argument is the
  list of the identifiers of \<open>e.changedTouches\<close>.\<close>

definition Dpad_handleTouchEnd :: "DpadProps \<Rightarrow> DpadState \<Rightarrow> nat list \<Rightarrow> DpadState \<times> Effect list" where
  "Dpad_handleTouchEnd p s changedIds =
     (let s1 = Dpad_clearDragTimer s;
          touchEnded = (activeTouchRef s1 \<in> set (map Some changedIds))
      in if touchEnded
         then
           (let s2 = s1\<lparr>activeTouchRef := None\<rparr>
            in if isDragging s2 then (s2\<lparr>isDragging := False\<rparr>, [])
               else (s2\<lparr>activeDirectionsRef := []\<rparr>,
                     forEach (releaseKey (dpad_controls p)) (activeDirectionsRef s2)))
         else (s1, []))"

text \<open>The hold timer \<open>t\<close> fires, if it is still pending: its callback is
  \<open>startDragging(touch.clientX, touch.clientY)\<close>.\<close>

definition Dpad_timerFire :: "DpadProps \<Rightarrow> DpadState \<Rightarrow> nat \<Rightarrow> DpadState \<times> Effect list" where
  "Dpad_timerFire p s t =
     (case map_of (dpad_timers s) t of
        None \<Rightarrow> (s, [])
      | Some touch \<Rightarrow>
          Dpad_startDragging p (s\<lparr>dpad_timers := clearTimeout t (dpad_timers s)\<rparr>)
            (fst touch) (snd touch))"

datatype DpadEvent =
    DTouchStart nat real real "DOMRect option"
  | DTouchMove "(nat \<times> real \<times> real) list" "DOMRect option"
  | DTouchEnd "nat list"
  | DTimerFire nat

fun Dpad_step :: "DpadProps \<Rightarrow> DpadState \<Rightarrow> DpadEvent \<Rightarrow> DpadState \<times> Effect list" where
  "Dpad_step p s (DTouchStart i cx cy r) = Dpad_handleTouchStart p s i cx cy r"
| "Dpad_step p s (DTouchMove ts r) = Dpad_handleTouchMove p s ts r"
| "Dpad_step p s (DTouchEnd ids) = Dpad_handleTouchEnd p s ids"
| "Dpad_step p s (DTimerFire t) = Dpad_timerFire p s t"

text \<open>A run of the pad: the events in order, from a state; the effects are collected.\<close>

fun Dpad_run :: "DpadProps \<Rightarrow> DpadState \<Rightarrow> DpadEvent list \<Rightarrow> DpadState \<times> Effect list" where
  "Dpad_run p s [] = (s, [])"
| "Dpad_run p s (ev # evs) =
     (let (s1, e1) = Dpad_step p s ev; (s2, e2) = Dpad_run p s1 evs in (s2, e1 @ e2))"

text \<open>The distance from the centre of the rectangle and the angle in degrees, as
  \<open>getDirectionsFromTouch\<close> computes them.\<close>

definition touchDistance :: "real \<Rightarrow> real \<Rightarrow> DOMRect \<Rightarrow> real" where
  "touchDistance touchX touchY rect =
     sqrt ((touchX - (rect_left rect + rect_width rect / 2)) * (touchX - (rect_left rect + rect_width rect / 2))
         + (touchY - (rect_top rect + rect_height rect / 2)) * (touchY - (rect_top rect + rect_height rect / 2)))"

definition touchAngle :: "real \<Rightarrow> real \<Rightarrow> DOMRect \<Rightarrow> real" where
  "touchAngle touchX touchY rect =
     Math_atan2 (touchY - (rect_top rect + rect_height rect / 2))
                (touchX - (rect_left rect + rect_width rect / 2)) * (180 / pi)"

text \<open>What holds of the pad's state after any sequence of events: while dragging no
  direction is active and the position callback is given; a hold timer is pending only
  when that callback is given; without a tracked touch the pad is idle; every pending
  hold timer is the one \<open>dragTimerRef\<close> names.\<close>

definition Dpad_inv :: "DpadProps \<Rightarrow> DpadState \<Rightarrow> bool" where
  "Dpad_inv p s =
     ((\<not> isDragging s \<or> (activeDirectionsRef s = [] \<and> dpad_onPositionChange p)) \<and>
      (dpad_timers s = [] \<or> dpad_onPositionChange p) \<and>
      (activeTouchRef s \<noteq> None \<or>
         (activeDirectionsRef s = [] \<and> \<not> isDragging s \<and> dpad_timers s = [])) \<and>
      list_all (\<lambda>e. dpad_dragTimerRef s = Some (fst e)) (dpad_timers s))"

section \<open>Touch handlers of a virtual button (useTouchHandlers)\<close>

text \<open>The properties handed to the hook. \<open>onPressDown\<close> and \<open>onPositionChange\<close> say whether
  the optional callback is given; \<open>vibrate\<close> whether \<open>navigator.vibrate\<close> exists.\<close>

record TouchProps =
  buttonType :: string
  isSystemButton :: bool
  buttonSize :: real
  displayX :: real
  displayY :: real
  containerWidth :: real
  containerHeight :: real
  onPressDown :: bool
  onPositionChange :: bool
  vibrate :: bool

text \<open>\<open>timers\<close> lists the pending hold timers of the button: the identifier, the delay in
  milliseconds the timer was started with, and the touch coordinates its callback keeps.\<close>

record TouchState =
  isDraggingRef :: bool
  dragStartRef :: "real \<times> real"
  dragTimerRef :: "nat option"
  touchStartPosRef :: "real \<times> real"
  timers :: "(nat \<times> nat \<times> real \<times> real) list"
  nextTimer :: nat

definition Touch_init :: TouchState where
  "Touch_init = \<lparr>isDraggingRef = False, dragStartRef = (0, 0), dragTimerRef = None,
     touchStartPosRef = (0, 0), timers = [], nextTimer = 1\<rparr>"

definition DRAG_MOVE_THRESHOLD :: real where
  "DRAG_MOVE_THRESHOLD = 10"

definition DRAG_CENTER_THRESHOLD :: real where
  "DRAG_CENTER_THRESHOLD = 0.4"

text \<open>The radius around the centre inside which a touch-start arms the hold timer, as the
  specification words it: 40% of the button's radius.\<close>

definition spec_dragThreshold :: "TouchProps \<Rightarrow> real" where
  "spec_dragThreshold p = (buttonSize p / 2) * 0.4"

definition clearDragTimer :: "TouchState \<Rightarrow> TouchState" where
  "clearDragTimer s =
     (case dragTimerRef s of
        None \<Rightarrow> s
      | Some t \<Rightarrow> s\<lparr>timers := clearTimeout t (timers s), dragTimerRef := None\<rparr>)"

definition startDragging :: "TouchProps \<Rightarrow> TouchState \<Rightarrow> real \<Rightarrow> real \<Rightarrow> TouchState \<times> Effect list" where
  "startDragging p s touchX touchY =
     (s\<lparr>isDraggingRef := True,
        dragStartRef := (touchX - (displayX p / 100) * containerWidth p,
                         touchY - (displayY p / 100) * containerHeight p)\<rparr>,
      (if vibrate p then [Vibrate [10, 30, 10]] else [])
        @ (if \<not> isSystemButton p then [Release (buttonType p)] else []))"

text \<open>\<open>handleTouchStart\<close>: the touch is \<open>e.touches[0]\<close>; \<open>target\<close> is the bounding rectangle
  of \<open>e.currentTarget\<close>, or \<open>None\<close> when there is no target.\<close>

definition handleTouchStart :: "TouchProps \<Rightarrow> TouchState \<Rightarrow> real \<Rightarrow> real \<Rightarrow> DOMRect option \<Rightarrow> TouchState \<times> Effect list" where
  "handleTouchStart p s clientX clientY target =
     (let s1 = s\<lparr>touchStartPosRef := (clientX, clientY)\<rparr>;
          e1 = (if vibrate p then [Vibrate [8]] else [])
               @ (if isSystemButton p then [Press (buttonType p)]
                  else if onPressDown p then [PressDown (buttonType p)] else [])
      in if onPositionChange p
         then
           (case target of
              None \<Rightarrow> (s1, e1)
            | Some rect \<Rightarrow>
                (let centerX = rect_left rect + rect_width rect / 2;
                     centerY = rect_top rect + rect_height rect / 2;
                     distance = sqrt ((clientX - centerX)\<^sup>2 + (clientY - centerY)\<^sup>2);
                     dragThreshold = buttonSize p * DRAG_CENTER_THRESHOLD
                 in if distance < dragThreshold
                    then (s1\<lparr>timers := timers s1 @ [(nextTimer s1, DRAG_HOLD_DELAY, clientX, clientY)],
                             dragTimerRef := Some (nextTimer s1),
                             nextTimer := nextTimer s1 + 1\<rparr>, e1)
                    else (s1, e1)))
         else (s1, e1))"

text \<open>The hold timer \<open>t\<close> fires, if it is still pending.\<close>

definition timerFire :: "TouchProps \<Rightarrow> TouchState \<Rightarrow> nat \<Rightarrow> TouchState \<times> Effect list" where
  "timerFire p s t =
     (case map_of (timers s) t of
        None \<Rightarrow> (s, [])
      | Some touch \<Rightarrow>
          (let s1 = s\<lparr>timers := clearTimeout t (timers s)\<rparr>
           in if \<not> isDraggingRef s1
              then startDragging p s1 (fst (snd touch)) (snd (snd touch))
              else (s1, [])))"

definition handleTouchMove :: "TouchProps \<Rightarrow> TouchState \<Rightarrow> real \<Rightarrow> real \<Rightarrow> TouchState \<times> Effect list" where
  "handleTouchMove p s clientX clientY =
     (let (s1, e1) =
            (if onPositionChange p \<and> \<not> isDraggingRef s
             then
               (let moveDistance = sqrt ((clientX - fst (touchStartPosRef s))\<^sup>2
                                         + (clientY - snd (touchStartPosRef s))\<^sup>2)
                in if moveDistance > DRAG_MOVE_THRESHOLD
                   then startDragging p (clearDragTimer s) clientX clientY
                   else (s, []))
             else (s, []))
      in if isDraggingRef s1 \<and> onPositionChange p
         then
           (let newX = clientX - fst (dragStartRef s1);
                newY = clientY - snd (dragStartRef s1);
                newXPercent = (newX / containerWidth p) * 100;
                newYPercent = (newY / containerHeight p) * 100;
                margin = (buttonSize p / 2 / min (containerWidth p) (containerHeight p)) * 100
            in (s1, e1 @ [PositionChange (constrain margin newXPercent) (constrain margin newYPercent)]))
         else (s1, e1))"

definition handleTouchEnd :: "TouchProps \<Rightarrow> TouchState \<Rightarrow> TouchState \<times> Effect list" where
  "handleTouchEnd p s =
     (let s1 = clearDragTimer s
      in if isDraggingRef s1 then (s1\<lparr>isDraggingRef := False\<rparr>, [])
         else (s1, if \<not> isSystemButton p then [Release (buttonType p)] else []))"

definition handleTouchCancel :: "TouchProps \<Rightarrow> TouchState \<Rightarrow> TouchState \<times> Effect list" where
  "handleTouchCancel p s =
     (let s1 = clearDragTimer s
      in if isDraggingRef s1 then (s1\<lparr>isDraggingRef := False\<rparr>, [])
         else (s1, if \<not> isSystemButton p then [Release (buttonType p)] else []))"

text \<open>A touch event as the handlers read it: \<open>e.touches\<close> is the list of all touches on the
  screen, oldest first, and \<open>e.changedTouches\<close> the touches the event is about; a touch is
  its identifier, \<open>clientX\<close> and \<open>clientY\<close>. \<open>handleTouchStart\<close> and \<open>handleTouchMove\<close> of the hook
  take \<open>e.touches[0]\<close>; with no touch in the list that is \<open>undefined\<close> and reading its
  \<open>clientX\<close> throws a TypeError, the result \<open>None\<close>.\<close>

record TouchEvent =
  te_touches :: "(nat \<times> real \<times> real) list"
  te_changedTouches :: "(nat \<times> real \<times> real) list"

definition onTouchStart :: "TouchProps \<Rightarrow> TouchState \<Rightarrow> TouchEvent \<Rightarrow> DOMRect option \<Rightarrow> (TouchState \<times> Effect list) option" where
  "onTouchStart p s e target =
     (case te_touches e of
        [] \<Rightarrow> None
      | touch # others \<Rightarrow>
          Some (handleTouchStart p s (fst (snd touch)) (snd (snd touch)) target))"

definition onTouchMove :: "TouchProps \<Rightarrow> TouchState \<Rightarrow> TouchEvent \<Rightarrow> (TouchState \<times> Effect list) option" where
  "onTouchMove p s e =
     (case te_touches e of
        [] \<Rightarrow> None
      | touch # others \<Rightarrow> Some (handleTouchMove p s (fst (snd touch)) (snd (snd touch))))"

text \<open>The hook on its own: touch events and hold timers in any order; a run ends with
  \<open>None\<close> where a handler throws.\<close>

datatype HookEvent =
    HTouchStart TouchEvent "DOMRect option"
  | HTouchMove TouchEvent
  | HTouchEnd
  | HTouchCancel
  | HTimerFire nat

fun Hook_step :: "TouchProps \<Rightarrow> TouchState \<Rightarrow> HookEvent \<Rightarrow> (TouchState \<times> Effect list) option" where
  "Hook_step p s (HTouchStart e target) = onTouchStart p s e target"
| "Hook_step p s (HTouchMove e) = onTouchMove p s e"
| "Hook_step p s HTouchEnd = Some (handleTouchEnd p s)"
| "Hook_step p s HTouchCancel = Some (handleTouchCancel p s)"
| "Hook_step p s (HTimerFire t) = Some (timerFire p s t)"

fun Hook_run :: "TouchProps \<Rightarrow> TouchState \<Rightarrow> HookEvent list \<Rightarrow> (TouchState \<times> Effect list) option" where
  "Hook_run p s [] = Some (s, [])"
| "Hook_run p s (ev # evs) =
     (case Hook_step p s ev of
        None \<Rightarrow> None
      | Some r1 \<Rightarrow>
          (case Hook_run p (fst r1) evs of
             None \<Rightarrow> None
           | Some r2 \<Rightarrow> Some (fst r2, snd r1 @ snd r2)))"

section \<open>Virtual controller container (VirtualController)\<close>

text \<open>\<open>isRunning\<close> and \<open>controls\<close> are the container's inputs; \<open>pressedButtons\<close> is its state;
  \<open>tapTimers\<close> lists the pending callbacks of \<open>handlePress\<close>, oldest first, each with the
  button and the keyboard code it will release and the delay in milliseconds it was
  started with. State updates given as functions (\<open>setPressedButtons(prev => ...)\<close>) are
  applied in the order they are queued.\<close>

record Container =
  isRunning :: bool
  controls :: "ControlMapping option"
  pressedButtons :: "string list"
  tapTimers :: "(string \<times> string \<times> nat) list"

definition SYSTEM_BUTTONS :: "string list" where
  "SYSTEM_BUTTONS = [''start'', ''select'', ''menu'']"

definition getButtonKeyboardCode :: "ControlMapping \<Rightarrow> Container \<Rightarrow> string \<Rightarrow> string option" where
  "getButtonKeyboardCode DEFAULT_CONTROLS c bt = getKeyboardCode DEFAULT_CONTROLS bt (controls c)"

definition handlePress :: "ControlMapping \<Rightarrow> Container \<Rightarrow> string \<Rightarrow> Container \<times> Effect list" where
  "handlePress DEFAULT_CONTROLS c bt =
     (let isSystem = (bt \<in> set SYSTEM_BUTTONS)
      in if \<not> isSystem \<and> \<not> isRunning c then (c, [])
         else
           (case getButtonKeyboardCode DEFAULT_CONTROLS c bt of
              None \<Rightarrow> (c, [])
            | Some keyboardCode \<Rightarrow>
                if keyboardCode = [] then (c, [])
                else (c\<lparr>pressedButtons := Set_add bt (pressedButtons c),
                         tapTimers := tapTimers c @ [(bt, keyboardCode, 100)]\<rparr>,
                      [Dispatch keydown keyboardCode])))"

text \<open>The oldest pending tap timer fires: the keyup, then the button leaves the set.\<close>

definition tapTimerFire :: "Container \<Rightarrow> Container \<times> Effect list" where
  "tapTimerFire c =
     (case tapTimers c of
        [] \<Rightarrow> (c, [])
      | t # ts \<Rightarrow>
          (c\<lparr>tapTimers := ts, pressedButtons := Set_delete (fst t) (pressedButtons c)\<rparr>,
           [Dispatch keyup (fst (snd t))]))"

definition handlePressDown :: "ControlMapping \<Rightarrow> Container \<Rightarrow> string \<Rightarrow> Container \<times> Effect list" where
  "handlePressDown DEFAULT_CONTROLS c bt =
     (if \<not> isRunning c then (c, [])
      else if bt \<in> set SYSTEM_BUTTONS then (c, [])
      else
        (case getButtonKeyboardCode DEFAULT_CONTROLS c bt of
           None \<Rightarrow> (c, [])
         | Some keyboardCode \<Rightarrow>
             if keyboardCode = [] then (c, [])
             else (c\<lparr>pressedButtons :=
                        (if bt \<in> set (pressedButtons c) then pressedButtons c
                         else Set_add bt (pressedButtons c))\<rparr>,
                   [Dispatch keydown keyboardCode])))"

definition handleRelease :: "ControlMapping \<Rightarrow> Container \<Rightarrow> string \<Rightarrow> Container \<times> Effect list" where
  "handleRelease DEFAULT_CONTROLS c bt =
     (if bt \<in> set SYSTEM_BUTTONS then (c, [])
      else
        (case getButtonKeyboardCode DEFAULT_CONTROLS c bt of
           None \<Rightarrow> (c, [])
         | Some keyboardCode \<Rightarrow>
             if keyboardCode = [] then (c, [])
             else (c\<lparr>pressedButtons :=
                        (if bt \<notin> set (pressedButtons c) then pressedButtons c
                         else Set_delete bt (pressedButtons c))\<rparr>,
                   [Dispatch keyup keyboardCode])))"

text \<open>The loop of the release-all effect: \<open>pressedButtons.forEach\<close> over the set as it was
  when the effect started, calling \<open>handleRelease\<close> for every button that is not a system
  button.\<close>

fun releaseEach :: "ControlMapping \<Rightarrow> Container \<Rightarrow> string list \<Rightarrow> Container \<times> Effect list" where
  "releaseEach DEFAULT_CONTROLS c [] = (c, [])"
| "releaseEach DEFAULT_CONTROLS c (bt # bts) =
     (if bt \<notin> set SYSTEM_BUTTONS
      then (let (c1, e1) = handleRelease DEFAULT_CONTROLS c bt;
                (c2, e2) = releaseEach DEFAULT_CONTROLS c1 bts
            in (c2, e1 @ e2))
      else releaseEach DEFAULT_CONTROLS c bts)"

text \<open>The body of the effect with the dependencies
  \<open>[isRunning, pressedButtons, handleRelease]\<close>.\<close>

definition releaseAllEffect :: "ControlMapping \<Rightarrow> Container \<Rightarrow> Container \<times> Effect list" where
  "releaseAllEffect DEFAULT_CONTROLS c =
     (if \<not> isRunning c \<and> pressedButtons c \<noteq> []
      then (let (c1, e1) = releaseEach DEFAULT_CONTROLS c (pressedButtons c)
            in (c1\<lparr>pressedButtons := []\<rparr>, e1))
      else (c, []))"

text \<open>The effect runs after every render in which \<open>isRunning\<close> or \<open>pressedButtons\<close> has
  changed. A handler that changes the state always gives \<open>pressedButtons\<close> a new \<open>Set\<close>
  (\<open>handlePress\<close> and the tap timer also when the contents stay the same, and then
  \<open>tapTimers\<close> differs), and a handler that returns \<open>prev\<close> changes nothing; so the effect runs
  exactly when the state after the handler differs from the state \<open>c\<close> before it. The
  effect's own update renders once more, and the effect then finds the set empty and does
  nothing.\<close>

definition afterRender :: "ControlMapping \<Rightarrow> Container \<Rightarrow> Container \<times> Effect list \<Rightarrow> Container \<times> Effect list" where
  "afterRender DEFAULT_CONTROLS c r =
     (if fst r = c then r
      else (let (c2, e2) = releaseAllEffect DEFAULT_CONTROLS (fst r) in (c2, snd r @ e2)))"

text \<open>The input \<open>isRunning\<close> becomes \<open>r\<close>: if that is a change, the component renders with
  the new value and the effect runs.\<close>

definition setIsRunning :: "ControlMapping \<Rightarrow> Container \<Rightarrow> bool \<Rightarrow> Container \<times> Effect list" where
  "setIsRunning DEFAULT_CONTROLS c r = afterRender DEFAULT_CONTROLS c (c\<lparr>isRunning := r\<rparr>, [])"

text \<open>A virtual button hands \<open>handlePress\<close>, \<open>handlePressDown\<close> and \<open>handleRelease\<close> to its
  touch handlers as \<open>onPress\<close>, \<open>onPressDown\<close> and \<open>onRelease\<close>: the callbacks among the effects
  of a touch handler run on the container, in order; the other effects pass through.\<close>

fun applyCallbacks :: "ControlMapping \<Rightarrow> Container \<Rightarrow> Effect list \<Rightarrow> Container \<times> Effect list" where
  "applyCallbacks D c [] = (c, [])"
| "applyCallbacks D c (Press bt # es) =
     (let (c1, e1) = handlePress D c bt; (c2, e2) = applyCallbacks D c1 es in (c2, e1 @ e2))"
| "applyCallbacks D c (PressDown bt # es) =
     (let (c1, e1) = handlePressDown D c bt; (c2, e2) = applyCallbacks D c1 es in (c2, e1 @ e2))"
| "applyCallbacks D c (Release bt # es) =
     (let (c1, e1) = handleRelease D c bt; (c2, e2) = applyCallbacks D c1 es in (c2, e1 @ e2))"
| "applyCallbacks D c (e # es) =
     (let (c2, e2) = applyCallbacks D c es in (c2, e # e2))"

text \<open>A button on the container: the touch events of the button and the timers. The
  callbacks of one event are applied, then the container renders.\<close>

datatype ButtonEvent =
    TouchStart real real "DOMRect option"
  | TouchMove real real
  | TouchEnd
  | TouchCancel
  | TimerFire nat
  | TapTimerFire

fun Button_step :: "ControlMapping \<Rightarrow> TouchProps \<Rightarrow> TouchState \<times> Container \<Rightarrow> ButtonEvent \<Rightarrow> (TouchState \<times> Container) \<times> Effect list" where
  "Button_step D p (s, c) (TouchStart cx cy target) =
     (let (s1, e1) = handleTouchStart p s cx cy target;
          (c1, e2) = afterRender D c (applyCallbacks D c e1)
      in ((s1, c1), e2))"
| "Button_step D p (s, c) (TouchMove cx cy) =
     (let (s1, e1) = handleTouchMove p s cx cy;
          (c1, e2) = afterRender D c (applyCallbacks D c e1)
      in ((s1, c1), e2))"
| "Button_step D p (s, c) TouchEnd =
     (let (s1, e1) = handleTouchEnd p s;
          (c1, e2) = afterRender D c (applyCallbacks D c e1)
      in ((s1, c1), e2))"
| "Button_step D p (s, c) TouchCancel =
     (let (s1, e1) = handleTouchCancel p s;
          (c1, e2) = afterRender D c (applyCallbacks D c e1)
      in ((s1, c1), e2))"
| "Button_step D p (s, c) (TimerFire t) =
     (let (s1, e1) = timerFire p s t;
          (c1, e2) = afterRender D c (applyCallbacks D c e1)
      in ((s1, c1), e2))"
| "Button_step D p (s, c) TapTimerFire =
     (let (c1, e1) = afterRender D c (tapTimerFire c) in ((s, c1), e1))"

fun Button_run :: "ControlMapping \<Rightarrow> TouchProps \<Rightarrow> TouchState \<times> Container \<Rightarrow> ButtonEvent list \<Rightarrow> (TouchState \<times> Container) \<times> Effect list" where
  "Button_run D p sc [] = (sc, [])"
| "Button_run D p sc (ev # evs) =
     (let (sc1, e1) = Button_step D p sc ev; (sc2, e2) = Button_run D p sc1 evs
      in (sc2, e1 @ e2))"

text \<open>The container on its own: its handlers called in any order, the tap timers and the
  changes of \<open>isRunning\<close>, each followed by the render it causes, from a container with
  nothing pressed. \<open>mappedCode\<close> says that a button has a non-empty keyboard code, and
  \<open>pressedMapped\<close> that the mapping is the given one and every pressed button has a code.\<close>

datatype ContainerEvent =
    CPress string
  | CPressDown string
  | CRelease string
  | CTapTimerFire
  | CSetIsRunning bool

fun Container_step :: "ControlMapping \<Rightarrow> Container \<Rightarrow> ContainerEvent \<Rightarrow> Container \<times> Effect list" where
  "Container_step D c (CPress bt) = afterRender D c (handlePress D c bt)"
| "Container_step D c (CPressDown bt) = afterRender D c (handlePressDown D c bt)"
| "Container_step D c (CRelease bt) = afterRender D c (handleRelease D c bt)"
| "Container_step D c CTapTimerFire = afterRender D c (tapTimerFire c)"
| "Container_step D c (CSetIsRunning r) = setIsRunning D c r"

fun Container_run :: "ControlMapping \<Rightarrow> Container \<Rightarrow> ContainerEvent list \<Rightarrow> Container \<times> Effect list" where
  "Container_run D c [] = (c, [])"
| "Container_run D c (ev # evs) =
     (let (c1, e1) = Container_step D c ev; (c2, e2) = Container_run D c1 evs in (c2, e1 @ e2))"

definition Container_init :: "bool \<Rightarrow> ControlMapping option \<Rightarrow> Container" where
  "Container_init r ctl = \<lparr>isRunning = r, controls = ctl, pressedButtons = [], tapTimers = []\<rparr>"

definition mappedCode :: "ControlMapping \<Rightarrow> ControlMapping option \<Rightarrow> string \<Rightarrow> bool" where
  "mappedCode D ctl bt = (case getKeyboardCode D bt ctl of None \<Rightarrow> False | Some k \<Rightarrow> k \<noteq> [])"

definition pressedMapped :: "ControlMapping \<Rightarrow> ControlMapping option \<Rightarrow> Container \<Rightarrow> bool" where
  "pressedMapped D ctl c = (controls c = ctl \<and> list_all (mappedCode D ctl) (pressedButtons c))"

text \<open>The keyboard codes of the buttons of a list that are not system buttons and have a
  code, in the order of the list; and the keys that are down after the dispatches of a
  list of effects, from the keys \<open>held\<close> that were down before.\<close>

definition gameButtonCodes :: "ControlMapping \<Rightarrow> ControlMapping option \<Rightarrow> string list \<Rightarrow> string list" where
  "gameButtonCodes D ctl bts =
     concat (map (\<lambda>bt. if bt \<in> set SYSTEM_BUTTONS then []
                       else (case getKeyboardCode D bt ctl of
                               None \<Rightarrow> []
                             | Some k \<Rightarrow> if k = [] then [] else [k])) bts)"

fun heldKeys :: "string list \<Rightarrow> Effect list \<Rightarrow> string list" where
  "heldKeys held [] = held"
| "heldKeys held (Dispatch keydown k # es) = heldKeys (Set_add k held) es"
| "heldKeys held (Dispatch keyup k # es) = heldKeys (Set_delete k held) es"
| "heldKeys held (e # es) = heldKeys held es"

section \<open>Example inputs\<close>

text \<open>A pad of 180 pixels on a 400 by 800 screen with the arrow keys, its bounding
  rectangle (centre at 100, 100), and a mapping whose \<open>up\<close> key is not assigned.\<close>

definition pad0 :: DpadProps where
  "pad0 = \<lparr>dpad_size = 180, dpad_x = 14, dpad_y = 62, dpad_containerWidth = 400,
     dpad_containerHeight = 800, dpad_controls = None, dpad_customPosition = None,
     dpad_onPositionChange = True, dpad_vibrate = True\<rparr>"

definition unassignedUp :: ControlMapping where
  "unassignedUp = [''up'' \<mapsto> '''', ''down'' \<mapsto> ''KeyS'', ''left'' \<mapsto> ''KeyA'', ''right'' \<mapsto> ''KeyD'']"

definition padRect :: DOMRect where
  "padRect = \<lparr>rect_left = 10, rect_top = 10, rect_width = 180, rect_height = 180\<rparr>"

text \<open>A system button and a game button of 50 pixels at the middle of the screen, their
  bounding rectangle (centre at 200, 400), a table of default controls, and a container
  whose game is running.\<close>

definition startButton :: TouchProps where
  "startButton = \<lparr>buttonType = ''start'', isSystemButton = True, buttonSize = 50,
     displayX = 50, displayY = 50, containerWidth = 400, containerHeight = 800,
     onPressDown = True, onPositionChange = True, vibrate = False\<rparr>"

definition aButton :: TouchProps where
  "aButton = \<lparr>buttonType = ''a'', isSystemButton = False, buttonSize = 50,
     displayX = 50, displayY = 50, containerWidth = 400, containerHeight = 800,
     onPressDown = True, onPositionChange = True, vibrate = False\<rparr>"

definition buttonRect :: DOMRect where
  "buttonRect = \<lparr>rect_left = 175, rect_top = 375, rect_width = 50, rect_height = 50\<rparr>"

definition exampleDefaults :: ControlMapping where
  "exampleDefaults = [''start'' \<mapsto> ''Enter'', ''a'' \<mapsto> ''KeyX'']"

definition runningContainer :: Container where
  "runningContainer = \<lparr>isRunning = True, controls = None, pressedButtons = [], tapTimers = []\<rparr>"

text \<open>The pad after a touch-start at its centre (hold timer pending), and the pad after
  that timer has fired.\<close>

definition padArmed :: DpadState where
  "padArmed = \<lparr>activeTouchRef = Some 1, activeDirectionsRef = [], isDragging = False,
     dpad_dragTimerRef = Some 1, dpad_dragStartRef = (0, 0, 0, 0),
     dpad_touchStartPosRef = (100, 100), dpad_timers = [(1, 100, 100)], dpad_nextTimer = 2\<rparr>"

definition padDragging :: DpadState where
  "padDragging = \<lparr>activeTouchRef = Some 1, activeDirectionsRef = [], isDragging = True,
     dpad_dragTimerRef = Some 1, dpad_dragStartRef = (14, 62, 100, 100),
     dpad_touchStartPosRef = (100, 100), dpad_timers = [], dpad_nextTimer = 2\<rparr>"

text \<open>A button larger than the smaller side of its container.\<close>

definition bigButton :: TouchProps where
  "bigButton = \<lparr>buttonType = ''a'', isSystemButton = False, buttonSize = 120,
     displayX = 50, displayY = 50, containerWidth = 100, containerHeight = 200,
     onPressDown = True, onPositionChange = True, vibrate = False\<rparr>"

text \<open>A container in which the game button \<open>a\<close> is held and the tap of \<open>start\<close> is
  pending, and the same container after the game has stopped.\<close>

definition heldContainer :: Container where
  "heldContainer = \<lparr>isRunning = True, controls = None, pressedButtons = [''a'', ''start''],
     tapTimers = [(''start'', ''Enter'', 100)]\<rparr>"

definition stoppedContainer :: Container where
  "stoppedContainer = \<lparr>isRunning = False, controls = None, pressedButtons = [],
     tapTimers = [(''start'', ''Enter'', 100)]\<rparr>"

text \<open>The pad with the direction \<open>right\<close> held by touch 1, away from the centre.\<close>

definition rightHeldPad :: DpadState where
  "rightHeldPad = \<lparr>activeTouchRef = Some 1, activeDirectionsRef = [Right], isDragging = False,
     dpad_dragTimerRef = None, dpad_dragStartRef = (0, 0, 0, 0),
     dpad_touchStartPosRef = (160, 100), dpad_timers = [], dpad_nextTimer = 1\<rparr>"

text \<open>Touch events on the button at (200, 400): a touch that is the only one on the
  screen; a touch that lands while an older touch rests at (60, 600), away from the button;
  two touch-starts at the centre of the button, the second while the first finger is
  down; and a move of the first finger by 20 pixels.\<close>

definition soloTouch :: "real \<Rightarrow> real \<Rightarrow> TouchEvent" where
  "soloTouch x y = \<lparr>te_touches = [(1, x, y)], te_changedTouches = [(1, x, y)]\<rparr>"

definition besideOtherFinger :: "real \<Rightarrow> real \<Rightarrow> TouchEvent" where
  "besideOtherFinger x y =
     \<lparr>te_touches = [(7, 60, 600), (1, x, y)], te_changedTouches = [(1, x, y)]\<rparr>"

definition overlappingStarts :: "HookEvent list" where
  "overlappingStarts =
     [HTouchStart \<lparr>te_touches = [(1, 200, 400)], te_changedTouches = [(1, 200, 400)]\<rparr>
        (Some buttonRect),
      HTouchStart \<lparr>te_touches = [(1, 200, 400), (2, 205, 400)],
                    te_changedTouches = [(2, 205, 400)]\<rparr> (Some buttonRect)]"

definition moveFirstFinger :: HookEvent where
  "moveFirstFinger =
     HTouchMove \<lparr>te_touches = [(1, 220, 400), (2, 205, 400)],
                  te_changedTouches = [(1, 220, 400)]\<rparr>"

section \<open>Properties\<close>

subsection \<open>The key name of a code\<close>

lemma startsWith_append [simp]: "startsWith (p @ r) p"
  by (simp add: startsWith_def)

lemma startsWith_iff: "startsWith s p \<longleftrightarrow> (\<exists>r. s = p @ r)"
proof
  assume "startsWith s p"
  then have "s = p @ drop (length p) s"
    by (metis append_take_drop_id startsWith_def)
  then show "\<exists>r. s = p @ r" ..
next
  assume "\<exists>r. s = p @ r"
  then show "startsWith s p" by auto
qed

text \<open>
  Claim C9, as stated, fails: for a code with the prefix \<open>Key\<close> the source also lower-cases
  what is left, so \<open>KeyA\<close> gives \<open>a\<close>, not \<open>A\<close>.
\<close>

theorem C9_getKeyName_KeyA_counterexample:
  "getKeyName ''KeyA'' = ''a'' \<and> spec_getKeyName ''KeyA'' = ''A'' \<and>
   getKeyName ''KeyA'' \<noteq> spec_getKeyName ''KeyA''"
  by (simp add: getKeyName_def spec_getKeyName_def startsWith_def toLowerCase_def
      toLowerCase_char_def)

text \<open>
  Claim C9, amended: the key name placed in the synthetic event is the code with a leading
  \<open>Key\<close> stripped and the remainder lower-cased; else the code with a leading \<open>Arrow\<close>
  stripped; else \<open>Enter\<close> for \<open>Enter\<close>; else \<open>Shift\<close> for \<open>ShiftLeft\<close> and \<open>ShiftRight\<close>;
  else the code unchanged.
\<close>

theorem C9_getKeyName_rule:
  "(case snd (dispatchKeyboardEvent True ty code) of
      None \<Rightarrow> False
    | Some e \<Rightarrow> ev_code e = code \<and> ev_key e = getKeyName code) \<and>
   getKeyName (''Key'' @ r) = toLowerCase r \<and>
   (if startsWith code ''Key'' then True
    else if startsWith code ''Arrow'' then getKeyName code = drop 5 code
    else if code = ''Enter'' then getKeyName code = ''Enter''
    else if code = ''ShiftLeft'' \<or> code = ''ShiftRight'' then getKeyName code = ''Shift''
    else getKeyName code = code)"
  by (simp add: dispatchKeyboardEvent_def getKeyName_def startsWith_def)

theorem C9_getKeyName_rule_witness:
  "getKeyName ''KeyZ'' = ''z'' \<and> getKeyName ''ArrowUp'' = ''Up'' \<and>
   getKeyName ''ShiftLeft'' = ''Shift'' \<and> getKeyName ''Space'' = ''Space''"
  using C9_getKeyName_rule [where ty = keydown and code = "''ArrowUp''" and r = "''Z''"]
    C9_getKeyName_rule [where ty = keydown and code = "''ShiftLeft''" and r = "''Z''"]
    C9_getKeyName_rule [where ty = keydown and code = "''Space''" and r = "''Z''"]
  by (simp add: startsWith_def toLowerCase_def toLowerCase_char_def)

subsection \<open>The events of a change of directions\<close>

lemma keyboardEvents_Nil [simp]: "keyboardEvents [] = []"
  by (simp add: keyboardEvents_def)

lemma keyboardEvents_append [simp]: "keyboardEvents (a @ b) = keyboardEvents a @ keyboardEvents b"
  by (simp add: keyboardEvents_def)

lemma keyboardEvents_releaseKey:
  "keyboardEvents (releaseKey c d) = map (Dispatch keyup) (filter (\<lambda>k. k \<noteq> []) [getKeyCode c d])"
  by (simp add: keyboardEvents_def releaseKey_def Let_def)

lemma keyboardEvents_engageKey:
  "keyboardEvents (engageKey p d) = map (Dispatch keydown) (filter (\<lambda>k. k \<noteq> []) [getKeyCode (dpad_controls p) d])"
  by (simp add: keyboardEvents_def engageKey_def Let_def)

lemma forEach_release_leaving:
  "keyboardEvents (forEach (\<lambda>dir. if dir \<notin> N then releaseKey c dir else []) prev) =
   map (Dispatch keyup) (filter (\<lambda>k. k \<noteq> []) (map (getKeyCode c) (filter (\<lambda>d. d \<notin> N) prev)))"
  by (induction prev) (simp_all add: keyboardEvents_releaseKey)

lemma forEach_engage_entering:
  "keyboardEvents (forEach (\<lambda>dir. if dir \<notin> P then engageKey p dir else []) new) =
   map (Dispatch keydown) (filter (\<lambda>k. k \<noteq> []) (map (getKeyCode (dpad_controls p)) (filter (\<lambda>d. d \<notin> P) new)))"
  by (induction new) (simp_all add: keyboardEvents_engageKey)


text \<open>
  Claim C1, as stated, fails: with a mapping in which \<open>up\<close> has no key, the direction
  \<open>up\<close> leaves the active set and no keyup is dispatched.
\<close>

theorem C1_unassigned_direction_counterexample:
  "activeDirectionsRef (Dpad_init\<lparr>activeDirectionsRef := [Up]\<rparr>) = [Up] \<and>
   getKeyCode (Some unassignedUp) Up = [] \<and>
   updateDirections (pad0\<lparr>dpad_controls := Some unassignedUp\<rparr>)
      (Dpad_init\<lparr>activeDirectionsRef := [Up]\<rparr>) [] = (Dpad_init, [])"
  by (simp add: updateDirections_def pad0_def unassignedUp_def Dpad_init_def releaseKey_def
      getKeyCode_def)

text \<open>
  Claim C1, amended: for every recomputation of the active-direction set, the keyboard
  events dispatched are exactly the difference of the previous and the new set, for the
  directions that have a key code: one keyup for each direction leaving the set, in the
  order of the previous set, then one keydown for each direction entering it, in the order
  of the new set, and no event for a direction in both; a direction without a key code
  dispatches nothing. The new set becomes the active set, so a direction that stays active
  over consecutive recomputations gets no second keydown.
\<close>

theorem C1_updateDirections_delta:
  "updateDirections p s newDirections = (s', es) \<Longrightarrow>
   activeDirectionsRef s' = newDirections \<and>
   keyboardEvents es =
     map (Dispatch keyup) (filter (\<lambda>k. k \<noteq> [])
        (map (getKeyCode (dpad_controls p))
           (filter (\<lambda>d. d \<notin> set newDirections) (activeDirectionsRef s))))
     @ map (Dispatch keydown) (filter (\<lambda>k. k \<noteq> [])
        (map (getKeyCode (dpad_controls p))
           (filter (\<lambda>d. d \<notin> set (activeDirectionsRef s)) newDirections)))"
  by (auto simp: updateDirections_def Let_def forEach_release_leaving forEach_engage_entering)

theorem C1_updateDirections_delta_witness:
  "updateDirections pad0 (Dpad_init\<lparr>activeDirectionsRef := [Left, Up]\<rparr>) [Up, Right] =
     (Dpad_init\<lparr>activeDirectionsRef := [Up, Right]\<rparr>,
      [Dispatch keyup ''ArrowLeft'', Vibrate [5], Dispatch keydown ''ArrowRight'']) \<and>
   keyboardEvents [Dispatch keyup ''ArrowLeft'', Vibrate [5], Dispatch keydown ''ArrowRight''] =
     [Dispatch keyup ''ArrowLeft'', Dispatch keydown ''ArrowRight'']"
proof -
  have u: "updateDirections pad0 (Dpad_init\<lparr>activeDirectionsRef := [Left, Up]\<rparr>) [Up, Right] =
     (Dpad_init\<lparr>activeDirectionsRef := [Up, Right]\<rparr>,
      [Dispatch keyup ''ArrowLeft'', Vibrate [5], Dispatch keydown ''ArrowRight''])"
    by (simp add: updateDirections_def pad0_def Dpad_init_def releaseKey_def engageKey_def
        getKeyCode_def)
  from C1_updateDirections_delta [OF u] u show ?thesis
    by (simp add: pad0_def Dpad_init_def getKeyCode_def)
qed

subsection \<open>The states the pad reaches\<close>

lemma clearTimeout_all:
  "list_all (\<lambda>e. fst e = t) ts \<Longrightarrow> clearTimeout t ts = []"
  by (induction ts) (auto simp: clearTimeout_def)

lemma list_all_clearTimeout:
  "list_all P ts \<Longrightarrow> list_all P (clearTimeout t ts)"
  by (induction ts) (auto simp: clearTimeout_def)

lemma Dpad_clearDragTimer_timers:
  "list_all (\<lambda>e. dpad_dragTimerRef s = Some (fst e)) (dpad_timers s) \<Longrightarrow>
   dpad_timers (Dpad_clearDragTimer s) = []"
proof (cases "dpad_dragTimerRef s")
  case None
  assume "list_all (\<lambda>e. dpad_dragTimerRef s = Some (fst e)) (dpad_timers s)"
  with None have "dpad_timers s = []" by (cases "dpad_timers s") auto
  with None show ?thesis by (simp add: Dpad_clearDragTimer_def)
next
  case (Some t)
  assume "list_all (\<lambda>e. dpad_dragTimerRef s = Some (fst e)) (dpad_timers s)"
  with Some have "list_all (\<lambda>e. fst e = t) (dpad_timers s)"
    by (auto simp: list_all_iff)
  then show ?thesis using Some by (simp add: Dpad_clearDragTimer_def clearTimeout_all)
qed

lemma Dpad_clearDragTimer_fields [simp]:
  "activeTouchRef (Dpad_clearDragTimer s) = activeTouchRef s"
  "activeDirectionsRef (Dpad_clearDragTimer s) = activeDirectionsRef s"
  "isDragging (Dpad_clearDragTimer s) = isDragging s"
  "dpad_dragTimerRef (Dpad_clearDragTimer s) = None"
  by (simp_all add: Dpad_clearDragTimer_def split: option.splits)

lemma Dpad_inv_clear:
  assumes "Dpad_inv p s"
  shows "Dpad_inv p (Dpad_clearDragTimer s) \<and> dpad_timers (Dpad_clearDragTimer s) = []"
proof -
  from assms have "dpad_timers (Dpad_clearDragTimer s) = []"
    by (simp add: Dpad_inv_def Dpad_clearDragTimer_timers)
  with assms show ?thesis
    by (auto simp: Dpad_inv_def)
qed

lemma updateDirections_fields [simp]:
  "activeTouchRef (fst (updateDirections p s n)) = activeTouchRef s"
  "activeDirectionsRef (fst (updateDirections p s n)) = n"
  "isDragging (fst (updateDirections p s n)) = isDragging s"
  "dpad_dragTimerRef (fst (updateDirections p s n)) = dpad_dragTimerRef s"
  "dpad_timers (fst (updateDirections p s n)) = dpad_timers s"
  by (simp_all add: updateDirections_def Let_def)

lemma Dpad_inv_handleTouchStart:
  assumes "Dpad_inv p s"
  shows "Dpad_inv p (fst (Dpad_handleTouchStart p s i cx cy r))"
proof (cases "activeTouchRef s")
  case (Some a)
  then show ?thesis using assms by (simp add: Dpad_handleTouchStart_def)
next
  case None
  with assms have idle: "activeDirectionsRef s = []" "\<not> isDragging s" "dpad_timers s = []"
    by (auto simp: Dpad_inv_def)
  show ?thesis
  proof (cases r)
    case None
    with \<open>activeTouchRef s = None\<close> idle show ?thesis
      by (simp add: Dpad_handleTouchStart_def Dpad_inv_def)
  next
    case (Some rect)
    with \<open>activeTouchRef s = None\<close> idle show ?thesis
      by (simp add: Dpad_handleTouchStart_def Dpad_inv_def Dpad_setTimeout_def Let_def)
  qed
qed


lemma Dpad_inv_updateDirections:
  assumes "Dpad_inv p s" "\<not> isDragging s" "activeTouchRef s \<noteq> None"
  shows "Dpad_inv p (fst (updateDirections p s n))"
  using assms unfolding Dpad_inv_def by simp

lemma Dpad_handleTouchMove_dragging:
  assumes "find (\<lambda>t. Some (fst t) = activeTouchRef s) ts = Some touch"
    and "isDragging s" "dpad_onPositionChange p"
  shows "fst (Dpad_handleTouchMove p s ts r) = s"
  unfolding Dpad_handleTouchMove_def using assms
  by (simp add: Let_def split_beta)

lemma Dpad_handleTouchMove_detect:
  assumes "find (\<lambda>t. Some (fst t) = activeTouchRef s) ts = Some touch"
    and "\<not> (isDragging s \<and> dpad_onPositionChange p)"
  shows "Dpad_handleTouchMove p s ts r =
       (case r of None \<Rightarrow> ((if sqrt ((fst (snd touch) - fst (dpad_touchStartPosRef s))\<^sup>2
                  + (snd (snd touch) - snd (dpad_touchStartPosRef s))\<^sup>2) > 15 then Dpad_clearDragTimer s else s), [])
        | Some rect \<Rightarrow> updateDirections p (if sqrt ((fst (snd touch) - fst (dpad_touchStartPosRef s))\<^sup>2
                  + (snd (snd touch) - snd (dpad_touchStartPosRef s))\<^sup>2) > 15 then Dpad_clearDragTimer s else s)
            (getDirectionsFromTouch (fst (snd touch)) (snd (snd touch)) rect))"
proof (cases "isDragging s")
  case True
  with assms(2) have "\<not> dpad_onPositionChange p" by simp
  with assms(1) show ?thesis
    unfolding Dpad_handleTouchMove_def by (simp add: Let_def)
next
  case False
  with assms(1) show ?thesis
    unfolding Dpad_handleTouchMove_def by (simp add: Let_def)
qed

lemma Dpad_inv_handleTouchMove:
  assumes "Dpad_inv p s"
  shows "Dpad_inv p (fst (Dpad_handleTouchMove p s ts r))"
proof (cases "find (\<lambda>t. Some (fst t) = activeTouchRef s) ts")
  case None
  then show ?thesis using assms by (simp add: Dpad_handleTouchMove_def)
next
  case (Some touch)
  then obtain i where "Some (fst (ts ! i)) = activeTouchRef s"
    unfolding find_Some_iff by blast
  then have tracked: "activeTouchRef s \<noteq> None" by (cases "activeTouchRef s") simp_all
  show ?thesis
  proof (cases "isDragging s \<and> dpad_onPositionChange p")
    case True
    with Some assms show ?thesis
      by (simp add: Dpad_handleTouchMove_dragging)
  next
    case False
    with assms have nd: "\<not> isDragging s" unfolding Dpad_inv_def by blast
    define s1 where "s1 = (if sqrt ((fst (snd touch) - fst (dpad_touchStartPosRef s))\<^sup>2
                  + (snd (snd touch) - snd (dpad_touchStartPosRef s))\<^sup>2) > 15 then Dpad_clearDragTimer s else s)"
    have eq: "Dpad_handleTouchMove p s ts r =
       (case r of None \<Rightarrow> (s1, [])
        | Some rect \<Rightarrow> updateDirections p s1
            (getDirectionsFromTouch (fst (snd touch)) (snd (snd touch)) rect))"
      unfolding s1_def by (rule Dpad_handleTouchMove_detect [OF Some False])
    have inv1: "Dpad_inv p s1" unfolding s1_def using assms Dpad_inv_clear by simp
    have "\<not> isDragging s1" "activeTouchRef s1 \<noteq> None"
      unfolding s1_def using nd tracked by simp_all
    with inv1 show ?thesis unfolding eq
      by (cases r) (simp_all add: Dpad_inv_updateDirections)
  qed
qed

lemma Dpad_inv_handleTouchEnd:
  assumes "Dpad_inv p s"
  shows "Dpad_inv p (fst (Dpad_handleTouchEnd p s ids))"
  using Dpad_inv_clear [OF assms] assms
  by (auto simp: Dpad_handleTouchEnd_def Dpad_inv_def Let_def)

lemma Dpad_inv_timerFire:
  assumes "Dpad_inv p s"
  shows "Dpad_inv p (fst (Dpad_timerFire p s t))"
proof (cases "map_of (dpad_timers s) t")
  case None
  then show ?thesis using assms by (simp add: Dpad_timerFire_def)
next
  case (Some touch)
  then have "dpad_timers s \<noteq> []" by auto
  with assms have "dpad_onPositionChange p" "activeTouchRef s \<noteq> None"
    by (auto simp: Dpad_inv_def)
  moreover from assms have "list_all (\<lambda>e. dpad_dragTimerRef s = Some (fst e)) (clearTimeout t (dpad_timers s))"
    by (simp add: Dpad_inv_def list_all_clearTimeout)
  ultimately show ?thesis using Some
    by (simp add: Dpad_timerFire_def Dpad_startDragging_def Dpad_inv_def)
qed

lemma Dpad_inv_step: "Dpad_inv p s \<Longrightarrow> Dpad_inv p (fst (Dpad_step p s ev))"
  by (cases ev)
    (simp_all add: Dpad_inv_handleTouchStart Dpad_inv_handleTouchMove
      Dpad_inv_handleTouchEnd Dpad_inv_timerFire)

lemma Dpad_inv_run: "Dpad_inv p s \<Longrightarrow> Dpad_inv p (fst (Dpad_run p s evs))"
proof (induction evs arbitrary: s)
  case Nil
  then show ?case by simp
next
  case (Cons ev evs)
  from Cons.prems have "Dpad_inv p (fst (Dpad_step p s ev))" by (rule Dpad_inv_step)
  then have "Dpad_inv p (fst (Dpad_run p (fst (Dpad_step p s ev)) evs))" by (rule Cons.IH)
  then show ?case by (simp add: split_beta Let_def)
qed

lemma Dpad_inv_init: "Dpad_inv p Dpad_init"
  by (simp add: Dpad_inv_def Dpad_init_def)

subsection \<open>Directions from a touch\<close>

lemma Math_atan2_range: "- pi < Math_atan2 y x \<and> Math_atan2 y x \<le> pi"
proof -
  have b: "- (pi / 2) < arctan (y / x)" "arctan (y / x) < pi / 2"
    by (rule arctan_lbound, rule arctan_ubound)
  have p: "0 < pi" by (rule pi_gt_zero)
  consider "0 < x" | "x < 0" "0 \<le> y" | "x < 0" "y < 0" | "x = 0"
    by linarith
  then show ?thesis
  proof cases
    case 1
    then have "Math_atan2 y x = arctan (y / x)" by (simp add: Math_atan2_def)
    with b p show ?thesis by linarith
  next
    case 2
    then have "y / x \<le> 0" by (simp add: divide_nonneg_neg)
    then have "arctan (y / x) \<le> 0" by (simp add: arctan_le_zero_iff)
    moreover from 2 have "Math_atan2 y x = arctan (y / x) + pi" by (simp add: Math_atan2_def)
    ultimately show ?thesis using b p by linarith
  next
    case 3
    then have "0 < y / x" by (simp add: divide_neg_neg)
    then have "0 < arctan (y / x)" by (simp add: zero_less_arctan_iff)
    moreover from 3 have "Math_atan2 y x = arctan (y / x) - pi" by (simp add: Math_atan2_def)
    ultimately show ?thesis using b p by linarith
  next
    case 4
    then have "Math_atan2 y x = pi / 2 \<or> Math_atan2 y x = - (pi / 2) \<or> Math_atan2 y x = 0"
      by (simp add: Math_atan2_def)
    with p show ?thesis by linarith
  qed
qed

lemma touchAngle_range: "- 180 \<le> touchAngle x y r \<and> touchAngle x y r \<le> 180"
proof -
  define a where "a = Math_atan2 (y - (rect_top r + rect_height r / 2)) (x - (rect_left r + rect_width r / 2))"
  have r: "- pi < a" "a \<le> pi" unfolding a_def using Math_atan2_range by blast+
  have p: "0 < pi" by (rule pi_gt_zero)
  have "a * (180 / pi) \<le> pi * (180 / pi)"
    using r(2) p by (intro mult_right_mono) simp_all
  moreover have "(- pi) * (180 / pi) \<le> a * (180 / pi)"
    using r(1) p by (intro mult_right_mono) simp_all
  ultimately show ?thesis using p by (simp add: touchAngle_def a_def)
qed

lemma getDirectionsFromTouch_deadZone:
  "touchDistance x y r < (rect_width r / 2) * 0.15 \<Longrightarrow> getDirectionsFromTouch x y r = []"
  unfolding getDirectionsFromTouch_def touchDistance_def by (simp add: Let_def)

lemma getDirectionsFromTouch_active:
  assumes "\<not> touchDistance x y r < (rect_width r / 2) * 0.15"
  shows "getDirectionsFromTouch x y r =
    (let angle = touchAngle x y r;
         d1 = (if angle \<ge> -150 \<and> angle \<le> -30 then Set_add Up [] else []);
         d2 = (if angle \<ge> 30 \<and> angle \<le> 150 then Set_add Down d1 else d1);
         d3 = (if angle \<ge> 120 \<or> angle \<le> -120 then Set_add Left d2 else d2);
         d4 = (if angle \<ge> -60 \<and> angle \<le> 60 then Set_add Right d3 else d3)
     in d4)"
  using assms unfolding getDirectionsFromTouch_def touchDistance_def touchAngle_def
  by (simp add: Let_def)

lemma set_Set_add [simp]: "set (Set_add x xs) = insert x (set xs)"
  by (auto simp: Set_add_def)

lemma distinct_Set_add [simp]: "distinct xs \<Longrightarrow> distinct (Set_add x xs)"
  by (auto simp: Set_add_def)

lemma getDirectionsFromTouch_members:
  assumes "\<not> touchDistance x y r < (rect_width r / 2) * 0.15"
  shows "(Up \<in> set (getDirectionsFromTouch x y r) \<longleftrightarrow> -150 \<le> touchAngle x y r \<and> touchAngle x y r \<le> -30)"
    and "(Down \<in> set (getDirectionsFromTouch x y r) \<longleftrightarrow> 30 \<le> touchAngle x y r \<and> touchAngle x y r \<le> 150)"
    and "(Left \<in> set (getDirectionsFromTouch x y r) \<longleftrightarrow> 120 \<le> touchAngle x y r \<or> touchAngle x y r \<le> -120)"
    and "(Right \<in> set (getDirectionsFromTouch x y r) \<longleftrightarrow> -60 \<le> touchAngle x y r \<and> touchAngle x y r \<le> 60)"
  unfolding getDirectionsFromTouch_active [OF assms] by (simp_all add: Let_def)

lemma getDirectionsFromTouch_distinct: "distinct (getDirectionsFromTouch x y r)"
proof (cases "touchDistance x y r < (rect_width r / 2) * 0.15")
  case True
  then show ?thesis by (simp add: getDirectionsFromTouch_deadZone)
next
  case False
  show ?thesis unfolding getDirectionsFromTouch_active [OF False] by (simp add: Let_def)
qed

lemma touchDistance_center:
  "touchDistance (rect_left r + rect_width r / 2) (rect_top r + rect_height r / 2) r = 0"
  by (simp add: touchDistance_def)

lemma sqrt_less_iff: "0 \<le> a \<Longrightarrow> sqrt x < a \<longleftrightarrow> x < a * a"
proof -
  assume "0 \<le> a"
  then have "sqrt (a * a) = a" by simp
  then show ?thesis by (metis real_sqrt_less_iff)
qed

lemma less_sqrt_iff: "0 \<le> a \<Longrightarrow> a < sqrt x \<longleftrightarrow> a * a < x"
proof -
  assume "0 \<le> a"
  then have "sqrt (a * a) = a" by simp
  then show ?thesis by (metis real_sqrt_less_iff)
qed

lemma updateDirections_idle:
  "activeDirectionsRef s = [] \<Longrightarrow> updateDirections p s [] = (s, [])"
  by (simp add: updateDirections_def)

lemma Dpad_setTimeout_fields [simp]:
  "activeTouchRef (Dpad_setTimeout s x y) = activeTouchRef s"
  "activeDirectionsRef (Dpad_setTimeout s x y) = activeDirectionsRef s"
  "isDragging (Dpad_setTimeout s x y) = isDragging s"
  by (simp_all add: Dpad_setTimeout_def)

lemma Dpad_handleTouchStart_center:
  assumes "0 < rect_width r" "activeTouchRef s = None" "Dpad_inv p s"
  shows "activeDirectionsRef (fst (Dpad_handleTouchStart p s i (rect_left r + rect_width r / 2)
            (rect_top r + rect_height r / 2) (Some r))) = [] \<and>
         snd (Dpad_handleTouchStart p s i (rect_left r + rect_width r / 2)
            (rect_top r + rect_height r / 2) (Some r)) = []"
proof -
  from assms(2,3) have idle: "activeDirectionsRef s = []" "\<not> isDragging s"
    unfolding Dpad_inv_def by auto
  have d: "getDirectionsFromTouch (rect_left r + rect_width r / 2) (rect_top r + rect_height r / 2) r = []"
    using assms(1) by (intro getDirectionsFromTouch_deadZone) (simp add: touchDistance_center)
  show ?thesis
    unfolding Dpad_handleTouchStart_def using assms(2) idle
    by (simp add: Let_def updateDirections_idle d)
qed


text \<open>
  Claim C3: if the distance of the touch from the centre of the rectangle is below 15% of
  the half-width, no direction is computed; otherwise \<open>up\<close> is active iff the angle is in
  [-150, -30], \<open>down\<close> iff in [30, 150], \<open>left\<close> iff in [120, 180] or [-180, -120], \<open>right\<close> iff
  in [-60, 60]. A touch at the exact centre of a pad (of positive width) has distance 0 and
  gives the empty set, and a touch starting there, on a pad that tracks no touch, leaves
  the active set empty and causes no effect at all.
\<close>

theorem C3_getDirectionsFromTouch_ranges:
  "(touchDistance touchX touchY rect < (rect_width rect / 2) * 0.15 \<longrightarrow>
      getDirectionsFromTouch touchX touchY rect = []) \<and>
   (\<not> touchDistance touchX touchY rect < (rect_width rect / 2) * 0.15 \<longrightarrow>
      (Up \<in> set (getDirectionsFromTouch touchX touchY rect) \<longleftrightarrow>
         -150 \<le> touchAngle touchX touchY rect \<and> touchAngle touchX touchY rect \<le> -30) \<and>
      (Down \<in> set (getDirectionsFromTouch touchX touchY rect) \<longleftrightarrow>
         30 \<le> touchAngle touchX touchY rect \<and> touchAngle touchX touchY rect \<le> 150) \<and>
      (Left \<in> set (getDirectionsFromTouch touchX touchY rect) \<longleftrightarrow>
         (120 \<le> touchAngle touchX touchY rect \<and> touchAngle touchX touchY rect \<le> 180) \<or>
         (-180 \<le> touchAngle touchX touchY rect \<and> touchAngle touchX touchY rect \<le> -120)) \<and>
      (Right \<in> set (getDirectionsFromTouch touchX touchY rect) \<longleftrightarrow>
         -60 \<le> touchAngle touchX touchY rect \<and> touchAngle touchX touchY rect \<le> 60)) \<and>
   distinct (getDirectionsFromTouch touchX touchY rect) \<and>
   (0 < rect_width rect \<longrightarrow>
      touchDistance (rect_left rect + rect_width rect / 2) (rect_top rect + rect_height rect / 2) rect = 0 \<and>
      getDirectionsFromTouch (rect_left rect + rect_width rect / 2)
        (rect_top rect + rect_height rect / 2) rect = []) \<and>
   (0 < rect_width rect \<and> activeTouchRef (fst (Dpad_run p Dpad_init evs)) = None \<longrightarrow>
      activeDirectionsRef (fst (Dpad_handleTouchStart p (fst (Dpad_run p Dpad_init evs)) i
         (rect_left rect + rect_width rect / 2) (rect_top rect + rect_height rect / 2) (Some rect))) = [] \<and>
      snd (Dpad_handleTouchStart p (fst (Dpad_run p Dpad_init evs)) i
         (rect_left rect + rect_width rect / 2) (rect_top rect + rect_height rect / 2) (Some rect)) = [])"
proof (intro conjI impI)
  assume "touchDistance touchX touchY rect < (rect_width rect / 2) * 0.15"
  then show "getDirectionsFromTouch touchX touchY rect = []"
    by (rule getDirectionsFromTouch_deadZone)
next
  assume a: "\<not> touchDistance touchX touchY rect < (rect_width rect / 2) * 0.15"
  show "Up \<in> set (getDirectionsFromTouch touchX touchY rect) \<longleftrightarrow>
         -150 \<le> touchAngle touchX touchY rect \<and> touchAngle touchX touchY rect \<le> -30"
    by (rule getDirectionsFromTouch_members(1) [OF a])
  show "Down \<in> set (getDirectionsFromTouch touchX touchY rect) \<longleftrightarrow>
         30 \<le> touchAngle touchX touchY rect \<and> touchAngle touchX touchY rect \<le> 150"
    by (rule getDirectionsFromTouch_members(2) [OF a])
  show "Left \<in> set (getDirectionsFromTouch touchX touchY rect) \<longleftrightarrow>
         (120 \<le> touchAngle touchX touchY rect \<and> touchAngle touchX touchY rect \<le> 180) \<or>
         (-180 \<le> touchAngle touchX touchY rect \<and> touchAngle touchX touchY rect \<le> -120)"
    using getDirectionsFromTouch_members(3) [OF a] touchAngle_range [of touchX touchY rect]
    by linarith
  show "Right \<in> set (getDirectionsFromTouch touchX touchY rect) \<longleftrightarrow>
         -60 \<le> touchAngle touchX touchY rect \<and> touchAngle touchX touchY rect \<le> 60"
    by (rule getDirectionsFromTouch_members(4) [OF a])
next
  show "distinct (getDirectionsFromTouch touchX touchY rect)"
    by (rule getDirectionsFromTouch_distinct)
next
  show "touchDistance (rect_left rect + rect_width rect / 2) (rect_top rect + rect_height rect / 2) rect = 0"
    by (rule touchDistance_center)
next
  assume "0 < rect_width rect"
  then show "getDirectionsFromTouch (rect_left rect + rect_width rect / 2)
        (rect_top rect + rect_height rect / 2) rect = []"
    by (intro getDirectionsFromTouch_deadZone) (simp add: touchDistance_center)
next
  assume a: "0 < rect_width rect \<and> activeTouchRef (fst (Dpad_run p Dpad_init evs)) = None"
  have inv: "Dpad_inv p (fst (Dpad_run p Dpad_init evs))"
    by (rule Dpad_inv_run [OF Dpad_inv_init])
  from Dpad_handleTouchStart_center [OF _ _ inv, of rect i] a
  show "activeDirectionsRef (fst (Dpad_handleTouchStart p (fst (Dpad_run p Dpad_init evs)) i
         (rect_left rect + rect_width rect / 2) (rect_top rect + rect_height rect / 2) (Some rect))) = []"
    and "snd (Dpad_handleTouchStart p (fst (Dpad_run p Dpad_init evs)) i
         (rect_left rect + rect_width rect / 2) (rect_top rect + rect_height rect / 2) (Some rect)) = []"
    by simp_all
qed

theorem C3_getDirectionsFromTouch_ranges_witness:
  "\<not> touchDistance 200 100 padRect < (rect_width padRect / 2) * 0.15 \<and>
   touchAngle 200 100 padRect = 0 \<and>
   getDirectionsFromTouch 200 100 padRect = [Right] \<and>
   0 < rect_width padRect \<and>
   getDirectionsFromTouch 100 100 padRect = [] \<and>
   activeTouchRef (fst (Dpad_run pad0 Dpad_init [])) = None \<and>
   snd (Dpad_handleTouchStart pad0 Dpad_init 1 100 100 (Some padRect)) = []"
proof -
  have d: "\<not> touchDistance 200 100 padRect < (rect_width padRect / 2) * 0.15"
    by (simp add: touchDistance_def padRect_def sqrt_less_iff)
  have a: "touchAngle 200 100 padRect = 0"
    by (simp add: touchAngle_def padRect_def Math_atan2_def)
  have g: "getDirectionsFromTouch 200 100 padRect = [Right]"
    using d a by (simp add: getDirectionsFromTouch_active Let_def Set_add_def)
  have c: "rect_left padRect + rect_width padRect / 2 = 100"
    "rect_top padRect + rect_height padRect / 2 = 100" "0 < rect_width padRect"
    by (simp_all add: padRect_def)
  have r: "fst (Dpad_run pad0 Dpad_init []) = Dpad_init" "activeTouchRef Dpad_init = None"
    by (simp_all add: Dpad_init_def)
  from C3_getDirectionsFromTouch_ranges [of 200 100 padRect pad0 "[]" 1] d a g
    C3_getDirectionsFromTouch_ranges [of 100 100 padRect pad0 "[]" 1] c r
  show ?thesis by simp
qed

subsection \<open>Drag mode and engaged input\<close>

lemma keyboardEvents_forEach_releaseKey:
  "keyboardEvents (forEach (releaseKey c) xs) =
   map (Dispatch keyup) (filter (\<lambda>k. k \<noteq> []) (map (getKeyCode c) xs))"
  by (induction xs) (simp_all add: keyboardEvents_releaseKey)

lemma noPositionChange_releaseKey [simp]: "filter isPositionChange (releaseKey c d) = []"
  by (simp add: releaseKey_def Let_def)

lemma noPositionChange_engageKey [simp]: "filter isPositionChange (engageKey p d) = []"
  by (simp add: engageKey_def Let_def)

lemma noPositionChange_forEach:
  "(\<And>x. filter isPositionChange (body x) = []) \<Longrightarrow> filter isPositionChange (forEach body xs) = []"
  by (induction xs) simp_all

lemma noPositionChange_updateDirections [simp]:
  "filter isPositionChange (snd (updateDirections p s n)) = []"
  by (simp add: updateDirections_def Let_def noPositionChange_forEach)

lemma noPositionChange_Dpad_startDragging [simp]:
  "filter isPositionChange (snd (Dpad_startDragging p s x y)) = []"
  by (simp add: Dpad_startDragging_def noPositionChange_forEach)

lemma noPositionChange_Dpad_handleTouchStart:
  "filter isPositionChange (snd (Dpad_handleTouchStart p s i x y r)) = []"
  by (cases r) (simp_all add: Dpad_handleTouchStart_def Let_def)

lemma noPositionChange_Dpad_handleTouchEnd:
  "filter isPositionChange (snd (Dpad_handleTouchEnd p s ids)) = []"
  by (simp add: Dpad_handleTouchEnd_def Let_def noPositionChange_forEach)

lemma noPositionChange_Dpad_timerFire:
  "filter isPositionChange (snd (Dpad_timerFire p s t)) = []"
  by (cases "map_of (dpad_timers s) t") (simp_all add: Dpad_timerFire_def)

lemma noPositionChange_Dpad_handleTouchMove:
  assumes "\<not> isDragging s"
  shows "filter isPositionChange (snd (Dpad_handleTouchMove p s ts r)) = []"
proof (cases "find (\<lambda>t. Some (fst t) = activeTouchRef s) ts")
  case None
  then show ?thesis by (simp add: Dpad_handleTouchMove_def)
next
  case (Some touch)
  from assms have "\<not> (isDragging s \<and> dpad_onPositionChange p)" by simp
  from Dpad_handleTouchMove_detect [OF Some this, of r] show ?thesis
    by (cases r) simp_all
qed

lemma noPositionChange_Dpad_step:
  "\<not> isDragging s \<Longrightarrow> filter isPositionChange (snd (Dpad_step p s ev)) = []"
  by (cases ev)
    (simp_all add: noPositionChange_Dpad_handleTouchStart noPositionChange_Dpad_handleTouchMove
      noPositionChange_Dpad_handleTouchEnd noPositionChange_Dpad_timerFire)

lemma Dpad_run_dragging_no_direction:
  "isDragging (fst (Dpad_run p Dpad_init evs)) \<Longrightarrow>
   activeDirectionsRef (fst (Dpad_run p Dpad_init evs)) = []"
  using Dpad_inv_run [OF Dpad_inv_init, of p evs] unfolding Dpad_inv_def by blast

lemma not_in_Set_delete [simp]: "x \<notin> set (Set_delete x xs)"
  by (simp add: Set_delete_def)

text \<open>
  Claim C2, amended. Entering drag mode on the pad dispatches a keyup for every active
  direction that has a key code, empties the active set and reports no position; in every
  state the pad reaches from its initial state, dragging implies that no direction is
  active, and an event reports a position only in such a state. Entering drag mode on a
  button calls the release callback when the button is not a system button, and not
  otherwise; on the container that callback takes a mapped game button out of the pressed
  set and dispatches its keyup.
\<close>

theorem C2_drag_entry_releases_input:
  "(Dpad_startDragging p s touchX touchY = (s', es) \<longrightarrow>
      keyboardEvents es =
        map (Dispatch keyup) (filter (\<lambda>k. k \<noteq> [])
          (map (getKeyCode (dpad_controls p)) (activeDirectionsRef s))) \<and>
      filter isPositionChange es = [] \<and> activeDirectionsRef s' = [] \<and> isDragging s') \<and>
   (isDragging (fst (Dpad_run p Dpad_init evs)) \<longrightarrow>
      activeDirectionsRef (fst (Dpad_run p Dpad_init evs)) = []) \<and>
   (filter isPositionChange (snd (Dpad_step p (fst (Dpad_run p Dpad_init evs)) ev)) \<noteq> [] \<longrightarrow>
      isDragging (fst (Dpad_run p Dpad_init evs)) \<and>
      activeDirectionsRef (fst (Dpad_run p Dpad_init evs)) = []) \<and>
   isDraggingRef (fst (startDragging bp bs touchX touchY)) \<and>
   snd (startDragging bp bs touchX touchY) =
     (if vibrate bp then [Vibrate [10, 30, 10]] else [])
       @ (if \<not> isSystemButton bp then [Release (buttonType bp)] else []) \<and>
   (bt \<notin> set SYSTEM_BUTTONS \<and> getButtonKeyboardCode D c bt = Some k \<and> k \<noteq> [] \<longrightarrow>
      bt \<notin> set (pressedButtons (fst (handleRelease D c bt))) \<and>
      snd (handleRelease D c bt) = [Dispatch keyup k])"
proof (intro conjI impI)
  assume a: "Dpad_startDragging p s touchX touchY = (s', es)"
  then have es: "es = forEach (releaseKey (dpad_controls p)) (activeDirectionsRef s)
        @ (if dpad_vibrate p then [Vibrate [10, 30, 10]] else [])"
    and s': "s' = s\<lparr>isDragging := True,
        dpad_dragStartRef := (Dpad_displayX p, Dpad_displayY p, touchX, touchY),
        activeDirectionsRef := []\<rparr>"
    by (simp_all add: Dpad_startDragging_def)
  show "keyboardEvents es =
        map (Dispatch keyup) (filter (\<lambda>k. k \<noteq> [])
          (map (getKeyCode (dpad_controls p)) (activeDirectionsRef s)))"
    unfolding es by (simp add: keyboardEvents_forEach_releaseKey) (simp add: keyboardEvents_def)
  show "filter isPositionChange es = []"
    unfolding es by (simp add: noPositionChange_forEach)
  show "activeDirectionsRef s' = []" "isDragging s'"
    unfolding s' by simp_all
next
  assume "isDragging (fst (Dpad_run p Dpad_init evs))"
  then show "activeDirectionsRef (fst (Dpad_run p Dpad_init evs)) = []"
    by (rule Dpad_run_dragging_no_direction)
next
  assume a: "filter isPositionChange (snd (Dpad_step p (fst (Dpad_run p Dpad_init evs)) ev)) \<noteq> []"
  then show d: "isDragging (fst (Dpad_run p Dpad_init evs))"
    using noPositionChange_Dpad_step by blast
  then show "activeDirectionsRef (fst (Dpad_run p Dpad_init evs)) = []"
    by (rule Dpad_run_dragging_no_direction)
next
  show "isDraggingRef (fst (startDragging bp bs touchX touchY))"
    by (simp add: startDragging_def)
next
  show "snd (startDragging bp bs touchX touchY) =
     (if vibrate bp then [Vibrate [10, 30, 10]] else [])
       @ (if \<not> isSystemButton bp then [Release (buttonType bp)] else [])"
    by (simp add: startDragging_def)
next
  assume a: "bt \<notin> set SYSTEM_BUTTONS \<and> getButtonKeyboardCode D c bt = Some k \<and> k \<noteq> []"
  then show "bt \<notin> set (pressedButtons (fst (handleRelease D c bt)))"
    and "snd (handleRelease D c bt) = [Dispatch keyup k]"
    by (simp_all add: handleRelease_def)
qed

theorem C2_drag_entry_releases_input_witness:
  "Dpad_run pad0 Dpad_init [DTouchStart 1 130 100 (Some padRect), DTimerFire 1] =
     (\<lparr>activeTouchRef = Some 1, activeDirectionsRef = [], isDragging = True,
       dpad_dragTimerRef = Some 1, dpad_dragStartRef = (14, 62, 130, 100),
       dpad_touchStartPosRef = (130, 100), dpad_timers = [], dpad_nextTimer = 2\<rparr>,
      [Vibrate [5], Dispatch keydown ''ArrowRight'', Dispatch keyup ''ArrowRight'',
       Vibrate [10, 30, 10]]) \<and>
   snd (Dpad_step pad0
      (fst (Dpad_run pad0 Dpad_init [DTouchStart 1 130 100 (Some padRect), DTimerFire 1]))
      (DTouchMove [(1, 150, 100)] (Some padRect))) = [PositionChange (45 / 2) 62] \<and>
   \<not> isSystemButton aButton \<and>
   startDragging aButton Touch_init 200 400 =
     (Touch_init\<lparr>isDraggingRef := True, dragStartRef := (0, 0)\<rparr>, [Release ''a'']) \<and>
   ''a'' \<notin> set SYSTEM_BUTTONS \<and>
   getButtonKeyboardCode exampleDefaults (runningContainer\<lparr>pressedButtons := [''a'']\<rparr>) ''a'' = Some ''KeyX'' \<and>
   handleRelease exampleDefaults (runningContainer\<lparr>pressedButtons := [''a'']\<rparr>) ''a'' =
     (runningContainer, [Dispatch keyup ''KeyX''])"
proof -
  have g: "getDirectionsFromTouch 130 100 padRect = [Right]"
    by (simp add: getDirectionsFromTouch_def padRect_def sqrt_less_iff Math_atan2_def
        Let_def Set_add_def)
  have r: "Dpad_run pad0 Dpad_init [DTouchStart 1 130 100 (Some padRect), DTimerFire 1] =
     (\<lparr>activeTouchRef = Some 1, activeDirectionsRef = [], isDragging = True,
       dpad_dragTimerRef = Some 1, dpad_dragStartRef = (14, 62, 130, 100),
       dpad_touchStartPosRef = (130, 100), dpad_timers = [], dpad_nextTimer = 2\<rparr>,
      [Vibrate [5], Dispatch keydown ''ArrowRight'', Dispatch keyup ''ArrowRight'',
       Vibrate [10, 30, 10]])"
    by (simp add: Dpad_handleTouchStart_def g Let_def CENTER_TOUCH_RADIUS_def)
      (simp add: pad0_def padRect_def Dpad_init_def Dpad_setTimeout_def sqrt_less_iff
        updateDirections_def engageKey_def releaseKey_def getKeyCode_def Dpad_timerFire_def
        Dpad_startDragging_def clearTimeout_def Dpad_displayX_def Dpad_displayY_def)
  have m: "snd (Dpad_step pad0
      (fst (Dpad_run pad0 Dpad_init [DTouchStart 1 130 100 (Some padRect), DTimerFire 1]))
      (DTouchMove [(1, 150, 100)] (Some padRect))) = [PositionChange (45 / 2) 62]"
    unfolding r by (simp add: Dpad_handleTouchMove_def pad0_def constrain_def)
  have b: "\<not> isSystemButton aButton"
    "startDragging aButton Touch_init 200 400 =
     (Touch_init\<lparr>isDraggingRef := True, dragStartRef := (0, 0)\<rparr>, [Release ''a''])"
    by (simp_all add: aButton_def startDragging_def)
  have c: "''a'' \<notin> set SYSTEM_BUTTONS"
    "getButtonKeyboardCode exampleDefaults (runningContainer\<lparr>pressedButtons := [''a'']\<rparr>) ''a'' = Some ''KeyX''"
    "handleRelease exampleDefaults (runningContainer\<lparr>pressedButtons := [''a'']\<rparr>) ''a'' =
     (runningContainer, [Dispatch keyup ''KeyX''])"
    by (simp_all add: SYSTEM_BUTTONS_def getButtonKeyboardCode_def getKeyboardCode_def
        exampleDefaults_def runningContainer_def handleRelease_def Set_delete_def)
  from C2_drag_entry_releases_input [of pad0 "Dpad_init\<lparr>activeDirectionsRef := [Right]\<rparr>" 200 400
      "fst (Dpad_startDragging pad0 (Dpad_init\<lparr>activeDirectionsRef := [Right]\<rparr>) 200 400)"
      "snd (Dpad_startDragging pad0 (Dpad_init\<lparr>activeDirectionsRef := [Right]\<rparr>) 200 400)"
      "[DTouchStart 1 130 100 (Some padRect), DTimerFire 1]"
      "DTouchMove [(1, 150, 100)] (Some padRect)" aButton Touch_init "''a''" exampleDefaults
      "runningContainer\<lparr>pressedButtons := [''a'']\<rparr>" "''KeyX''"]
    r m b c
  show ?thesis by simp
qed

text \<open>
  Claim C2, as stated, fails on a virtual button. A system button is not released when its
  drag starts: after a touch-start on \<open>start\<close> and a move of 20 pixels the button drags
  while it is still in the pressed set, its keyup pending. And a further touch-start on a
  game button that is being dragged presses it again.
\<close>

theorem C2_button_drag_while_pressed_counterexample:
  "Button_run exampleDefaults startButton (Touch_init, runningContainer)
     [TouchStart 200 400 (Some buttonRect), TouchMove 220 400] =
   ((\<lparr>isDraggingRef = True, dragStartRef = (20, 0), dragTimerRef = None,
      touchStartPosRef = (200, 400), timers = [], nextTimer = 2\<rparr>,
     \<lparr>isRunning = True, controls = None, pressedButtons = [''start''],
      tapTimers = [(''start'', ''Enter'', 100)]\<rparr>),
    [Dispatch keydown ''Enter'', PositionChange 50 50]) \<and>
   Button_run exampleDefaults aButton (Touch_init, runningContainer)
     [TouchStart 200 400 (Some buttonRect), TouchMove 220 400,
      TouchStart 220 400 (Some buttonRect)] =
   ((\<lparr>isDraggingRef = True, dragStartRef = (20, 0), dragTimerRef = None,
      touchStartPosRef = (220, 400), timers = [], nextTimer = 2\<rparr>,
     \<lparr>isRunning = True, controls = None, pressedButtons = [''a''], tapTimers = []\<rparr>),
    [Dispatch keydown ''KeyX'', Dispatch keyup ''KeyX'', PositionChange 50 50,
     Dispatch keydown ''KeyX''])"
  by (simp add: startButton_def aButton_def buttonRect_def exampleDefaults_def
     runningContainer_def Touch_init_def
     handleTouchStart_def handleTouchMove_def startDragging_def clearDragTimer_def clearTimeout_def
     handlePress_def handlePressDown_def handleRelease_def getButtonKeyboardCode_def
     getKeyboardCode_def SYSTEM_BUTTONS_def Set_add_def Set_delete_def
     afterRender_def releaseAllEffect_def DRAG_HOLD_DELAY_def
     DRAG_CENTER_THRESHOLD_def DRAG_MOVE_THRESHOLD_def sqrt_less_iff less_sqrt_iff Let_def constrain_def)

subsection \<open>The hold timer of the pad\<close>

lemma map_of_clearTimeout [simp]: "map_of (clearTimeout t ts) t = None"
  by (induction ts) (auto simp: clearTimeout_def)

lemma Dpad_clearDragTimer_cancelled:
  "dpad_dragTimerRef s = Some t \<Longrightarrow> map_of (dpad_timers (Dpad_clearDragTimer s)) t = None"
  by (simp add: Dpad_clearDragTimer_def)

lemma Dpad_handleTouchMove_beyond:
  assumes f: "find (\<lambda>t. Some (fst t) = activeTouchRef s) ts = Some (i, clientX, clientY)"
    and nd: "\<not> isDragging s"
    and far: "sqrt ((clientX - fst (dpad_touchStartPosRef s))\<^sup>2
                  + (clientY - snd (dpad_touchStartPosRef s))\<^sup>2) > 15"
  shows "Dpad_handleTouchMove p s ts (Some rect) =
     updateDirections p (Dpad_clearDragTimer s) (getDirectionsFromTouch clientX clientY rect)"
proof -
  from nd have n: "\<not> (isDragging s \<and> dpad_onPositionChange p)" by simp
  have c: "(if sqrt ((fst (snd (i, clientX, clientY)) - fst (dpad_touchStartPosRef s))\<^sup>2
                  + (snd (snd (i, clientX, clientY)) - snd (dpad_touchStartPosRef s))\<^sup>2) > 15
            then Dpad_clearDragTimer s else s) = Dpad_clearDragTimer s"
    by (rule if_P) (use far in simp)
  show ?thesis
    unfolding Dpad_handleTouchMove_detect [OF f n] c by simp
qed

lemma isDragging_if_clearDragTimer [simp]:
  "isDragging (if c then Dpad_clearDragTimer s else s) = isDragging s"
  by (cases c) simp_all

lemma Dpad_handleTouchStart_isDragging:
  "isDragging (fst (Dpad_handleTouchStart p s i x y r)) = isDragging s"
  by (cases r) (simp_all add: Dpad_handleTouchStart_def Let_def)

lemma Dpad_handleTouchMove_isDragging:
  "isDragging (fst (Dpad_handleTouchMove p s ts r)) = isDragging s"
proof (cases "find (\<lambda>t. Some (fst t) = activeTouchRef s) ts")
  case None
  then show ?thesis by (simp add: Dpad_handleTouchMove_def)
next
  case (Some touch)
  show ?thesis
  proof (cases "isDragging s \<and> dpad_onPositionChange p")
    case True
    with Some show ?thesis by (simp add: Dpad_handleTouchMove_dragging)
  next
    case False
    show ?thesis
      unfolding Dpad_handleTouchMove_detect [OF Some False] by (cases r) simp_all
  qed
qed

lemma Dpad_handleTouchEnd_isDragging:
  "isDragging (fst (Dpad_handleTouchEnd p s ids)) \<Longrightarrow> isDragging s"
  by (simp add: Dpad_handleTouchEnd_def Let_def split: if_splits)

lemma Dpad_step_enters_drag:
  assumes "\<not> isDragging s" "isDragging (fst (Dpad_step p s ev))"
  shows "\<exists>t touch. ev = DTimerFire t \<and> map_of (dpad_timers s) t = Some touch"
proof (cases ev)
  case (DTouchStart i x y r)
  with assms show ?thesis by (simp add: Dpad_handleTouchStart_isDragging)
next
  case (DTouchMove ts r)
  with assms show ?thesis by (simp add: Dpad_handleTouchMove_isDragging)
next
  case (DTouchEnd ids)
  with assms show ?thesis by (auto dest: Dpad_handleTouchEnd_isDragging)
next
  case (DTimerFire t)
  with assms show ?thesis
    by (cases "map_of (dpad_timers s) t") (simp_all add: Dpad_timerFire_def)
qed

lemma Dpad_handleTouchMove_suppressed:
  assumes "isDragging s" "dpad_onPositionChange p"
  shows "fst (Dpad_handleTouchMove p s ts r) = s"
    and "keyboardEvents (snd (Dpad_handleTouchMove p s ts r)) = []"
proof -
  show "fst (Dpad_handleTouchMove p s ts r) = s"
  proof (cases "find (\<lambda>t. Some (fst t) = activeTouchRef s) ts")
    case None
    then show ?thesis by (simp add: Dpad_handleTouchMove_def)
  next
    case (Some touch)
    with assms show ?thesis by (simp add: Dpad_handleTouchMove_dragging)
  qed
  from assms show "keyboardEvents (snd (Dpad_handleTouchMove p s ts r)) = []"
    by (cases "find (\<lambda>t. Some (fst t) = activeTouchRef s) ts")
      (simp_all add: Dpad_handleTouchMove_def Let_def split_beta keyboardEvents_def)
qed

text \<open>
  Claim C8, amended. On the pad, a move of the tracked touch by more than 15 pixels from
  where it started, while the pad is not dragging, cancels the pending hold timer and does
  not enter drag mode: the directions are computed from the touch as before. The only
  event that takes a pad that is not dragging into drag mode is the firing of a pending
  hold timer: the keys of the active directions are then released and the active set is
  emptied; while dragging, in every state the pad reaches, a touch-move changes no state
  and dispatches no keyboard event, until the end of the tracked touch leaves drag mode.
  The hold timer is armed at a touch-start exactly when the touch is nearer to the centre
  than 25% of the pad's size and the position callback is given.
\<close>

theorem C8_move_cancels_hold_timer:
  "(find (\<lambda>t. Some (fst t) = activeTouchRef s) ts = Some (i, clientX, clientY) \<and>
    \<not> isDragging s \<and>
    sqrt ((clientX - fst (dpad_touchStartPosRef s))\<^sup>2
        + (clientY - snd (dpad_touchStartPosRef s))\<^sup>2) > 15 \<longrightarrow>
      \<not> isDragging (fst (Dpad_handleTouchMove p s ts (Some rect))) \<and>
      dpad_dragTimerRef (fst (Dpad_handleTouchMove p s ts (Some rect))) = None \<and>
      (case dpad_dragTimerRef s of
         None \<Rightarrow> True
       | Some t \<Rightarrow> map_of (dpad_timers (fst (Dpad_handleTouchMove p s ts (Some rect)))) t = None) \<and>
      activeDirectionsRef (fst (Dpad_handleTouchMove p s ts (Some rect))) =
        getDirectionsFromTouch clientX clientY rect) \<and>
   (map_of (dpad_timers s) t = Some touch \<longrightarrow>
      isDragging (fst (Dpad_timerFire p s t)) \<and>
      activeDirectionsRef (fst (Dpad_timerFire p s t)) = [] \<and>
      keyboardEvents (snd (Dpad_timerFire p s t)) =
        map (Dispatch keyup) (filter (\<lambda>k. k \<noteq> [])
          (map (getKeyCode (dpad_controls p)) (activeDirectionsRef s)))) \<and>
   (isDragging s \<and> dpad_onPositionChange p \<longrightarrow>
      fst (Dpad_handleTouchMove p s ts r) = s \<and>
      keyboardEvents (snd (Dpad_handleTouchMove p s ts r)) = []) \<and>
   (isDragging s \<and> activeTouchRef s = Some i \<and> i \<in> set ids \<longrightarrow>
      \<not> isDragging (fst (Dpad_handleTouchEnd p s ids)) \<and>
      activeTouchRef (fst (Dpad_handleTouchEnd p s ids)) = None) \<and>
   (activeTouchRef s = None \<longrightarrow>
      (dpad_timers (fst (Dpad_handleTouchStart p s i clientX clientY (Some rect))) \<noteq> dpad_timers s
       \<longleftrightarrow>
       sqrt ((clientX - (rect_left rect + rect_width rect / 2))\<^sup>2
           + (clientY - (rect_top rect + rect_height rect / 2))\<^sup>2) < dpad_size p * 0.25
       \<and> dpad_onPositionChange p)) \<and>
   (\<not> isDragging s \<and> isDragging (fst (Dpad_step p s ev)) \<longrightarrow>
      (\<exists>fired kept. ev = DTimerFire fired \<and> map_of (dpad_timers s) fired = Some kept)) \<and>
   (isDragging (fst (Dpad_run p Dpad_init evs)) \<longrightarrow>
      fst (Dpad_handleTouchMove p (fst (Dpad_run p Dpad_init evs)) ts r) =
        fst (Dpad_run p Dpad_init evs) \<and>
      keyboardEvents (snd (Dpad_handleTouchMove p (fst (Dpad_run p Dpad_init evs)) ts r)) = [])"
proof (intro conjI impI)
  assume a: "find (\<lambda>t. Some (fst t) = activeTouchRef s) ts = Some (i, clientX, clientY) \<and>
    \<not> isDragging s \<and>
    sqrt ((clientX - fst (dpad_touchStartPosRef s))\<^sup>2
        + (clientY - snd (dpad_touchStartPosRef s))\<^sup>2) > 15"
  then have eq: "Dpad_handleTouchMove p s ts (Some rect) =
     updateDirections p (Dpad_clearDragTimer s) (getDirectionsFromTouch clientX clientY rect)"
    by (intro Dpad_handleTouchMove_beyond) blast+
  from a show "\<not> isDragging (fst (Dpad_handleTouchMove p s ts (Some rect)))"
    unfolding eq by simp
  show "dpad_dragTimerRef (fst (Dpad_handleTouchMove p s ts (Some rect))) = None"
    unfolding eq by simp
  show "case dpad_dragTimerRef s of
         None \<Rightarrow> True
       | Some t \<Rightarrow> map_of (dpad_timers (fst (Dpad_handleTouchMove p s ts (Some rect)))) t = None"
    unfolding eq by (simp add: Dpad_clearDragTimer_cancelled split: option.split)
  show "activeDirectionsRef (fst (Dpad_handleTouchMove p s ts (Some rect))) =
        getDirectionsFromTouch clientX clientY rect"
    unfolding eq by simp
next
  assume a: "map_of (dpad_timers s) t = Some touch"
  then have eq: "Dpad_timerFire p s t =
     Dpad_startDragging p (s\<lparr>dpad_timers := clearTimeout t (dpad_timers s)\<rparr>) (fst touch) (snd touch)"
    by (simp add: Dpad_timerFire_def)
  show "isDragging (fst (Dpad_timerFire p s t))"
    and "activeDirectionsRef (fst (Dpad_timerFire p s t)) = []"
    unfolding eq by (simp_all add: Dpad_startDragging_def)
  show "keyboardEvents (snd (Dpad_timerFire p s t)) =
        map (Dispatch keyup) (filter (\<lambda>k. k \<noteq> [])
          (map (getKeyCode (dpad_controls p)) (activeDirectionsRef s)))"
    unfolding eq by (simp add: Dpad_startDragging_def keyboardEvents_forEach_releaseKey)
      (simp add: keyboardEvents_def)
next
  assume a: "isDragging s \<and> dpad_onPositionChange p"
  then show "fst (Dpad_handleTouchMove p s ts r) = s"
    and "keyboardEvents (snd (Dpad_handleTouchMove p s ts r)) = []"
    by (simp_all add: Dpad_handleTouchMove_suppressed)
next
  assume a: "isDragging s \<and> activeTouchRef s = Some i \<and> i \<in> set ids"
  then have "activeTouchRef (Dpad_clearDragTimer s) \<in> set (map Some ids)" by simp
  with a show "\<not> isDragging (fst (Dpad_handleTouchEnd p s ids))"
    and "activeTouchRef (fst (Dpad_handleTouchEnd p s ids)) = None"
    by (simp_all add: Dpad_handleTouchEnd_def Let_def)
next
  assume a: "activeTouchRef s = None"
  show "dpad_timers (fst (Dpad_handleTouchStart p s i clientX clientY (Some rect))) \<noteq> dpad_timers s
       \<longleftrightarrow>
       sqrt ((clientX - (rect_left rect + rect_width rect / 2))\<^sup>2
           + (clientY - (rect_top rect + rect_height rect / 2))\<^sup>2) < dpad_size p * 0.25
       \<and> dpad_onPositionChange p"
    using a
    by (simp add: Dpad_handleTouchStart_def Let_def Dpad_setTimeout_def CENTER_TOUCH_RADIUS_def)
next
  assume "\<not> isDragging s \<and> isDragging (fst (Dpad_step p s ev))"
  then show "\<exists>fired kept. ev = DTimerFire fired \<and> map_of (dpad_timers s) fired = Some kept"
    using Dpad_step_enters_drag by blast
next
  assume d: "isDragging (fst (Dpad_run p Dpad_init evs))"
  from Dpad_inv_run [OF Dpad_inv_init, of p evs] d have "dpad_onPositionChange p"
    unfolding Dpad_inv_def by blast
  with d show "fst (Dpad_handleTouchMove p (fst (Dpad_run p Dpad_init evs)) ts r) =
        fst (Dpad_run p Dpad_init evs)"
    and "keyboardEvents (snd (Dpad_handleTouchMove p (fst (Dpad_run p Dpad_init evs)) ts r)) = []"
    by (simp_all add: Dpad_handleTouchMove_suppressed)
qed

text \<open>
  Claim C8, as stated, fails: after a touch-start at the centre the hold timer is pending; a
  move of 20 pixels to the right does not enter drag mode: the timer is cancelled,
  \<open>right\<close> becomes active and its keydown is dispatched. The zone that arms the timer is
  not 25% of the radius either: on the pad of 180 pixels (radius 90) a touch 30 pixels from
  the centre is farther than 22.5 pixels and arms the timer; and on a pad without the
  position callback a touch at the centre arms none.
\<close>

theorem C8_move_does_not_drag_counterexample:
  "Dpad_run pad0 Dpad_init [DTouchStart 1 100 100 (Some padRect)] = (padArmed, []) \<and>
   dpad_timers padArmed = [(1, 100, 100)] \<and>
   Dpad_run pad0 Dpad_init
     [DTouchStart 1 100 100 (Some padRect), DTouchMove [(1, 120, 100)] (Some padRect)] =
     (\<lparr>activeTouchRef = Some 1, activeDirectionsRef = [Right], isDragging = False,
       dpad_dragTimerRef = None, dpad_dragStartRef = (0, 0, 0, 0),
       dpad_touchStartPosRef = (100, 100), dpad_timers = [], dpad_nextTimer = 2\<rparr>,
      [Vibrate [5], Dispatch keydown ''ArrowRight'']) \<and>
   \<not> touchDistance 130 100 padRect < spec_centerRadius pad0 \<and>
   dpad_timers (fst (Dpad_run pad0 Dpad_init [DTouchStart 1 130 100 (Some padRect)])) =
     [(1, 130, 100)] \<and>
   touchDistance 100 100 padRect < spec_centerRadius pad0 \<and>
   dpad_timers (fst (Dpad_run (pad0\<lparr>dpad_onPositionChange := False\<rparr>) Dpad_init
     [DTouchStart 1 100 100 (Some padRect)])) = []"
proof -
  have g0: "getDirectionsFromTouch 100 100 padRect = []"
    by (simp add: getDirectionsFromTouch_def padRect_def Let_def)
  have g1: "getDirectionsFromTouch 120 100 padRect = [Right]"
    by (simp add: getDirectionsFromTouch_def padRect_def sqrt_less_iff Math_atan2_def
        Let_def Set_add_def)
  have g3: "getDirectionsFromTouch 130 100 padRect = [Right]"
    by (simp add: getDirectionsFromTouch_def padRect_def sqrt_less_iff Math_atan2_def
        Let_def Set_add_def)
  have z: "\<not> touchDistance 130 100 padRect < spec_centerRadius pad0"
    "touchDistance 100 100 padRect < spec_centerRadius pad0"
    by (simp_all add: touchDistance_def spec_centerRadius_def padRect_def pad0_def sqrt_less_iff)
  have a3: "dpad_timers (fst (Dpad_handleTouchStart pad0 Dpad_init 1 130 100 (Some padRect))) =
     [(1, 130, 100)]"
    by (simp add: Dpad_handleTouchStart_def g3 Let_def CENTER_TOUCH_RADIUS_def)
      (simp add: pad0_def padRect_def Dpad_init_def Dpad_setTimeout_def sqrt_less_iff)
  have r3: "dpad_timers (fst (Dpad_run pad0 Dpad_init [DTouchStart 1 130 100 (Some padRect)])) =
     [(1, 130, 100)]"
    using a3 by (simp add: split_beta)
  have a4: "dpad_timers (fst (Dpad_handleTouchStart (pad0\<lparr>dpad_onPositionChange := False\<rparr>)
      Dpad_init 1 100 100 (Some padRect))) = []"
    by (simp add: Dpad_handleTouchStart_def g0 Let_def CENTER_TOUCH_RADIUS_def)
      (simp add: Dpad_init_def)
  have r4: "dpad_timers (fst (Dpad_run (pad0\<lparr>dpad_onPositionChange := False\<rparr>) Dpad_init
     [DTouchStart 1 100 100 (Some padRect)])) = []"
    using a4 by (simp add: split_beta)
  have a: "Dpad_handleTouchStart pad0 Dpad_init 1 100 100 (Some padRect) = (padArmed, [])"
    by (simp add: Dpad_handleTouchStart_def g0 Let_def CENTER_TOUCH_RADIUS_def)
      (simp add: pad0_def padRect_def Dpad_init_def padArmed_def Dpad_setTimeout_def
        updateDirections_def)
  have b: "Dpad_handleTouchMove pad0 padArmed [(1, 120, 100)] (Some padRect) =
     (\<lparr>activeTouchRef = Some 1, activeDirectionsRef = [Right], isDragging = False,
       dpad_dragTimerRef = None, dpad_dragStartRef = (0, 0, 0, 0),
       dpad_touchStartPosRef = (100, 100), dpad_timers = [], dpad_nextTimer = 2\<rparr>,
      [Vibrate [5], Dispatch keydown ''ArrowRight''])"
    by (simp add: Dpad_handleTouchMove_def g1 Let_def)
      (simp add: pad0_def padArmed_def less_sqrt_iff Dpad_clearDragTimer_def clearTimeout_def
        updateDirections_def engageKey_def getKeyCode_def)
  have r1: "Dpad_run pad0 Dpad_init [DTouchStart 1 100 100 (Some padRect)] = (padArmed, [])"
    unfolding Dpad_run.simps Dpad_step.simps a Let_def split_conv by simp
  have r2: "Dpad_run pad0 Dpad_init
     [DTouchStart 1 100 100 (Some padRect), DTouchMove [(1, 120, 100)] (Some padRect)] =
     (\<lparr>activeTouchRef = Some 1, activeDirectionsRef = [Right], isDragging = False,
       dpad_dragTimerRef = None, dpad_dragStartRef = (0, 0, 0, 0),
       dpad_touchStartPosRef = (100, 100), dpad_timers = [], dpad_nextTimer = 2\<rparr>,
      [Vibrate [5], Dispatch keydown ''ArrowRight''])"
    unfolding Dpad_run.simps Dpad_step.simps a Let_def split_conv b by simp
  have t: "dpad_timers padArmed = [(1, 100, 100)]" by (simp add: padArmed_def)
  from r1 t r2 z r3 r4 show ?thesis by blast
qed

theorem C8_move_cancels_hold_timer_witness:
  "Dpad_handleTouchStart pad0 Dpad_init 1 100 100 (Some padRect) = (padArmed, []) \<and>
   Dpad_handleTouchMove pad0 padArmed [(1, 120, 100)] (Some padRect) =
     (padArmed\<lparr>dpad_dragTimerRef := None, dpad_timers := [], activeDirectionsRef := [Right]\<rparr>,
      [Vibrate [5], Dispatch keydown ''ArrowRight'']) \<and>
   Dpad_timerFire pad0 padArmed 1 = (padDragging, [Vibrate [10, 30, 10]]) \<and>
   Dpad_handleTouchMove pad0 padDragging [(1, 150, 100)] (Some padRect) =
     (padDragging, [PositionChange (53 / 2) 62]) \<and>
   Dpad_handleTouchEnd pad0 padDragging [1] =
     (padDragging\<lparr>dpad_dragTimerRef := None, activeTouchRef := None, isDragging := False\<rparr>, []) \<and>
   \<not> isDragging padArmed \<and> isDragging padDragging \<and>
   Dpad_step pad0 padArmed (DTimerFire 1) = (padDragging, [Vibrate [10, 30, 10]]) \<and>
   map_of (dpad_timers padArmed) 1 = Some (100, 100) \<and>
   Dpad_run pad0 Dpad_init [DTouchStart 1 100 100 (Some padRect), DTimerFire 1] =
     (padDragging, [Vibrate [10, 30, 10]])"
proof -
  have g0: "getDirectionsFromTouch 100 100 padRect = []"
    by (simp add: getDirectionsFromTouch_def padRect_def Let_def)
  have g1: "getDirectionsFromTouch 120 100 padRect = [Right]"
    by (simp add: getDirectionsFromTouch_def padRect_def sqrt_less_iff Math_atan2_def
        Let_def Set_add_def)
  have a: "Dpad_handleTouchStart pad0 Dpad_init 1 100 100 (Some padRect) = (padArmed, [])"
    by (simp add: Dpad_handleTouchStart_def g0 Let_def CENTER_TOUCH_RADIUS_def)
      (simp add: pad0_def padRect_def Dpad_init_def padArmed_def Dpad_setTimeout_def
        updateDirections_def)
  have b: "Dpad_handleTouchMove pad0 padArmed [(1, 120, 100)] (Some padRect) =
     (padArmed\<lparr>dpad_dragTimerRef := None, dpad_timers := [], activeDirectionsRef := [Right]\<rparr>,
      [Vibrate [5], Dispatch keydown ''ArrowRight''])"
    by (simp add: Dpad_handleTouchMove_def g1 Let_def)
      (simp add: pad0_def padArmed_def less_sqrt_iff Dpad_clearDragTimer_def clearTimeout_def
        updateDirections_def engageKey_def getKeyCode_def)
  have c: "Dpad_timerFire pad0 padArmed 1 = (padDragging, [Vibrate [10, 30, 10]])"
    by (simp add: Dpad_timerFire_def padArmed_def padDragging_def pad0_def clearTimeout_def
        Dpad_startDragging_def Dpad_displayX_def Dpad_displayY_def)
  have d: "Dpad_handleTouchMove pad0 padDragging [(1, 150, 100)] (Some padRect) =
     (padDragging, [PositionChange (53 / 2) 62])"
    by (simp add: Dpad_handleTouchMove_def padDragging_def pad0_def constrain_def)
  have e: "Dpad_handleTouchEnd pad0 padDragging [1] =
     (padDragging\<lparr>dpad_dragTimerRef := None, activeTouchRef := None, isDragging := False\<rparr>, [])"
    by (simp add: Dpad_handleTouchEnd_def padDragging_def Dpad_clearDragTimer_def clearTimeout_def)
  have h1: "find (\<lambda>t. Some (fst t) = activeTouchRef padArmed) [(1, 120, 100)] = Some (1, 120, 100)"
    "\<not> isDragging padArmed"
    "sqrt ((120 - fst (dpad_touchStartPosRef padArmed))\<^sup>2
        + (100 - snd (dpad_touchStartPosRef padArmed))\<^sup>2) > 15"
    "map_of (dpad_timers padArmed) 1 = Some (100, 100)"
    by (simp_all add: padArmed_def less_sqrt_iff)
  have h2: "isDragging padDragging" "dpad_onPositionChange pad0"
    "activeTouchRef padDragging = Some 1" "(1::nat) \<in> set [1]"
    "activeTouchRef Dpad_init = None"
    by (simp_all add: padDragging_def pad0_def Dpad_init_def)
  have f: "Dpad_step pad0 padArmed (DTimerFire 1) = (padDragging, [Vibrate [10, 30, 10]])"
    using c by simp
  have r: "Dpad_run pad0 Dpad_init [DTouchStart 1 100 100 (Some padRect), DTimerFire 1] =
     (padDragging, [Vibrate [10, 30, 10]])"
    unfolding Dpad_run.simps Dpad_step.simps a Let_def split_conv c by simp
  from C8_move_cancels_hold_timer [of padArmed "[(1, 120, 100)]" 1 120 100 pad0 padRect 1 "(100, 100)" "Some padRect" "[1]"
      "DTimerFire 1" "[DTouchStart 1 100 100 (Some padRect), DTimerFire 1]"]
    C8_move_cancels_hold_timer [of padDragging "[(1, 150, 100)]" 1 150 100 pad0 padRect 1 "(100, 100)" "Some padRect" "[1]"
      "DTimerFire 1" "[DTouchStart 1 100 100 (Some padRect), DTimerFire 1]"]
    C8_move_cancels_hold_timer [of Dpad_init "[(1, 120, 100)]" 1 100 100 pad0 padRect 1 "(100, 100)" "Some padRect" "[1]"
      "DTimerFire 1" "[DTouchStart 1 100 100 (Some padRect), DTimerFire 1]"]
    h1 h2 a b c d e f r
  show ?thesis by simp
qed

subsection \<open>The position a drag reports\<close>

lemma constrain_lower: "margin \<le> constrain margin v"
  by (simp add: constrain_def)

lemma constrain_upper: "margin \<le> 50 \<Longrightarrow> constrain margin v \<le> 100 - margin"
  by (simp add: constrain_def)

lemma constrain_inverted: "50 < margin \<Longrightarrow> constrain margin v = margin"
  by (simp add: constrain_def)

lemma dragMargin_le_50:
  assumes "0 < w" "0 < h" "sz \<le> min w h"
  shows "dragMargin sz w h \<le> 50"
proof -
  define mn where "mn = min w h"
  from assms have "0 < mn" "sz \<le> mn" unfolding mn_def by simp_all
  then have "sz / mn \<le> 1" by simp
  then show ?thesis unfolding dragMargin_def mn_def [symmetric] by simp
qed

lemma dragMargin_gt_50:
  assumes "0 < w" "0 < h" "\<not> sz \<le> min w h"
  shows "50 < dragMargin sz w h"
proof -
  define mn where "mn = min w h"
  from assms have "0 < mn" "mn < sz" unfolding mn_def by linarith+
  then have "1 < sz / mn" by simp
  then show ?thesis unfolding dragMargin_def mn_def [symmetric] by simp
qed

lemma startDragging_noPositionChange [simp]:
  "PositionChange px py \<notin> set (snd (startDragging p s x y))"
  by (simp add: startDragging_def)

lemma handleTouchMove_positions:
  assumes "PositionChange px py \<in> set (snd (handleTouchMove p s clientX clientY))"
  shows "\<exists>vx vy. px = constrain (dragMargin (buttonSize p) (containerWidth p) (containerHeight p)) vx \<and>
                 py = constrain (dragMargin (buttonSize p) (containerWidth p) (containerHeight p)) vy"
proof -
  define r where "r = (if onPositionChange p \<and> \<not> isDraggingRef s
             then
               (let moveDistance = sqrt ((clientX - fst (touchStartPosRef s))\<^sup>2
                                         + (clientY - snd (touchStartPosRef s))\<^sup>2)
                in if moveDistance > DRAG_MOVE_THRESHOLD
                   then startDragging p (clearDragTimer s) clientX clientY
                   else (s, []))
             else (s, []))"
  have n: "PositionChange px py \<notin> set (snd r)"
    unfolding r_def by (simp add: Let_def)
  have "handleTouchMove p s clientX clientY =
     (if isDraggingRef (fst r) \<and> onPositionChange p
      then (fst r, snd r @ [PositionChange
          (constrain (dragMargin (buttonSize p) (containerWidth p) (containerHeight p))
             (((clientX - fst (dragStartRef (fst r))) / containerWidth p) * 100))
          (constrain (dragMargin (buttonSize p) (containerWidth p) (containerHeight p))
             (((clientY - snd (dragStartRef (fst r))) / containerHeight p) * 100))])
      else r)"
    unfolding handleTouchMove_def r_def [symmetric] dragMargin_def
    by (simp add: Let_def split_beta)
  with assms n show ?thesis
    by (auto split: if_splits)
qed

lemma Dpad_handleTouchMove_positions:
  assumes "PositionChange px py \<in> set (snd (Dpad_handleTouchMove p s ts r))"
  shows "\<exists>vx vy. px = constrain (dragMargin (dpad_size p) (dpad_containerWidth p) (dpad_containerHeight p)) vx \<and>
                 py = constrain (dragMargin (dpad_size p) (dpad_containerWidth p) (dpad_containerHeight p)) vy"
proof (cases "isDragging s")
  case False
  then have "filter isPositionChange (snd (Dpad_handleTouchMove p s ts r)) = []"
    by (rule noPositionChange_Dpad_handleTouchMove)
  moreover from assms have "PositionChange px py \<in> set (filter isPositionChange (snd (Dpad_handleTouchMove p s ts r)))"
    by simp
  ultimately show ?thesis by simp
next
  case True
  show ?thesis
  proof (cases "find (\<lambda>t. Some (fst t) = activeTouchRef s) ts")
    case None
    with assms show ?thesis by (simp add: Dpad_handleTouchMove_def)
  next
    case (Some touch)
    show ?thesis
    proof (cases "dpad_onPositionChange p")
      case False
      then have "\<not> (isDragging s \<and> dpad_onPositionChange p)" by simp
      from Dpad_handleTouchMove_detect [OF Some this, of r]
      have "filter isPositionChange (snd (Dpad_handleTouchMove p s ts r)) = []"
        by (cases r) simp_all
      moreover from assms have "PositionChange px py \<in> set (filter isPositionChange (snd (Dpad_handleTouchMove p s ts r)))"
        by simp
      ultimately show ?thesis by simp
    next
      case pc: True
      from assms Some True pc show ?thesis
        unfolding Dpad_handleTouchMove_def dragMargin_def
        by (simp add: Let_def split_beta) blast
    qed
  qed
qed

text \<open>
  Claim C4, amended. For positive container dimensions, every position a drag handler (of
  a button or of the pad) reports is at least the margin in both axes; it is at most
  100 minus the margin in both axes when the size of the control is at most the smaller
  container dimension (margin at most 50); for a larger control both coordinates are the
  margin itself.
\<close>

theorem C4_drag_position_bounds:
  "(PositionChange px py \<in> set (snd (handleTouchMove p s clientX clientY)) \<and>
    0 < containerWidth p \<and> 0 < containerHeight p \<longrightarrow>
      dragMargin (buttonSize p) (containerWidth p) (containerHeight p) \<le> px \<and>
      dragMargin (buttonSize p) (containerWidth p) (containerHeight p) \<le> py \<and>
      (if buttonSize p \<le> min (containerWidth p) (containerHeight p)
       then px \<le> 100 - dragMargin (buttonSize p) (containerWidth p) (containerHeight p) \<and>
            py \<le> 100 - dragMargin (buttonSize p) (containerWidth p) (containerHeight p)
       else px = dragMargin (buttonSize p) (containerWidth p) (containerHeight p) \<and>
            py = dragMargin (buttonSize p) (containerWidth p) (containerHeight p))) \<and>
   (PositionChange qx qy \<in> set (snd (Dpad_handleTouchMove dp ds ts r)) \<and>
    0 < dpad_containerWidth dp \<and> 0 < dpad_containerHeight dp \<longrightarrow>
      dragMargin (dpad_size dp) (dpad_containerWidth dp) (dpad_containerHeight dp) \<le> qx \<and>
      dragMargin (dpad_size dp) (dpad_containerWidth dp) (dpad_containerHeight dp) \<le> qy \<and>
      (if dpad_size dp \<le> min (dpad_containerWidth dp) (dpad_containerHeight dp)
       then qx \<le> 100 - dragMargin (dpad_size dp) (dpad_containerWidth dp) (dpad_containerHeight dp) \<and>
            qy \<le> 100 - dragMargin (dpad_size dp) (dpad_containerWidth dp) (dpad_containerHeight dp)
       else qx = dragMargin (dpad_size dp) (dpad_containerWidth dp) (dpad_containerHeight dp) \<and>
            qy = dragMargin (dpad_size dp) (dpad_containerWidth dp) (dpad_containerHeight dp)))"
proof -
  have main: "m \<le> constrain m vx \<and> m \<le> constrain m vy \<and>
      (if sz \<le> min w h
       then constrain m vx \<le> 100 - m \<and> constrain m vy \<le> 100 - m
       else constrain m vx = m \<and> constrain m vy = m)"
    if "m = dragMargin sz w h" "0 < w" "0 < h" for m sz w h vx vy :: real
  proof (cases "sz \<le> min w h")
    case True
    with that have "m \<le> 50" by (simp add: dragMargin_le_50)
    with True show ?thesis by (simp add: constrain_lower constrain_upper)
  next
    case False
    with that have "50 < m" by (simp add: dragMargin_gt_50)
    with False show ?thesis by (simp add: constrain_lower constrain_inverted)
  qed
  show ?thesis
  proof (intro conjI impI)
    assume a: "PositionChange px py \<in> set (snd (handleTouchMove p s clientX clientY)) \<and>
      0 < containerWidth p \<and> 0 < containerHeight p"
    then obtain vx vy where
      "px = constrain (dragMargin (buttonSize p) (containerWidth p) (containerHeight p)) vx"
      "py = constrain (dragMargin (buttonSize p) (containerWidth p) (containerHeight p)) vy"
      using handleTouchMove_positions by blast
    with a main [OF refl, of "containerWidth p" "containerHeight p" "buttonSize p" vx vy]
    show "dragMargin (buttonSize p) (containerWidth p) (containerHeight p) \<le> px"
      and "dragMargin (buttonSize p) (containerWidth p) (containerHeight p) \<le> py"
      and "if buttonSize p \<le> min (containerWidth p) (containerHeight p)
       then px \<le> 100 - dragMargin (buttonSize p) (containerWidth p) (containerHeight p) \<and>
            py \<le> 100 - dragMargin (buttonSize p) (containerWidth p) (containerHeight p)
       else px = dragMargin (buttonSize p) (containerWidth p) (containerHeight p) \<and>
            py = dragMargin (buttonSize p) (containerWidth p) (containerHeight p)"
      by simp_all
  next
    assume a: "PositionChange qx qy \<in> set (snd (Dpad_handleTouchMove dp ds ts r)) \<and>
      0 < dpad_containerWidth dp \<and> 0 < dpad_containerHeight dp"
    then obtain vx vy where
      "qx = constrain (dragMargin (dpad_size dp) (dpad_containerWidth dp) (dpad_containerHeight dp)) vx"
      "qy = constrain (dragMargin (dpad_size dp) (dpad_containerWidth dp) (dpad_containerHeight dp)) vy"
      using Dpad_handleTouchMove_positions by blast
    with a main [OF refl, of "dpad_containerWidth dp" "dpad_containerHeight dp" "dpad_size dp" vx vy]
    show "dragMargin (dpad_size dp) (dpad_containerWidth dp) (dpad_containerHeight dp) \<le> qx"
      and "dragMargin (dpad_size dp) (dpad_containerWidth dp) (dpad_containerHeight dp) \<le> qy"
      and "if dpad_size dp \<le> min (dpad_containerWidth dp) (dpad_containerHeight dp)
       then qx \<le> 100 - dragMargin (dpad_size dp) (dpad_containerWidth dp) (dpad_containerHeight dp) \<and>
            qy \<le> 100 - dragMargin (dpad_size dp) (dpad_containerWidth dp) (dpad_containerHeight dp)
       else qx = dragMargin (dpad_size dp) (dpad_containerWidth dp) (dpad_containerHeight dp) \<and>
            qy = dragMargin (dpad_size dp) (dpad_containerWidth dp) (dpad_containerHeight dp)"
      by simp_all
  qed
qed

text \<open>
  Claim C4, as stated, fails: a button of 120 pixels in a container of 100 by 200 has the
  margin 60, and the position reported while dragging is (60, 60), above 100 - 60.
\<close>

theorem C4_large_button_counterexample:
  "0 < containerWidth bigButton \<and> 0 < containerHeight bigButton \<and>
   dragMargin (buttonSize bigButton) (containerWidth bigButton) (containerHeight bigButton) = 60 \<and>
   handleTouchMove bigButton (Touch_init\<lparr>isDraggingRef := True\<rparr>) 50 50 =
     (Touch_init\<lparr>isDraggingRef := True\<rparr>, [PositionChange 60 60]) \<and>
   \<not> (60 \<le> 100 - dragMargin (buttonSize bigButton) (containerWidth bigButton)
                     (containerHeight bigButton))"
  by (simp add: bigButton_def dragMargin_def handleTouchMove_def Touch_init_def constrain_def)

theorem C4_drag_position_bounds_witness:
  "handleTouchMove aButton (Touch_init\<lparr>isDraggingRef := True\<rparr>) 500 8 =
     (Touch_init\<lparr>isDraggingRef := True\<rparr>, [PositionChange (375 / 4) (25 / 4)]) \<and>
   dragMargin (buttonSize aButton) (containerWidth aButton) (containerHeight aButton) = 25 / 4 \<and>
   buttonSize aButton \<le> min (containerWidth aButton) (containerHeight aButton) \<and>
   Dpad_handleTouchMove pad0 padDragging [(1, 150, 100)] (Some padRect) =
     (padDragging, [PositionChange (53 / 2) 62]) \<and>
   dragMargin (dpad_size pad0) (dpad_containerWidth pad0) (dpad_containerHeight pad0) = 45 / 2 \<and>
   dpad_size pad0 \<le> min (dpad_containerWidth pad0) (dpad_containerHeight pad0)"
proof -
  have a: "handleTouchMove aButton (Touch_init\<lparr>isDraggingRef := True\<rparr>) 500 8 =
     (Touch_init\<lparr>isDraggingRef := True\<rparr>, [PositionChange (375 / 4) (25 / 4)])"
    by (simp add: aButton_def handleTouchMove_def Touch_init_def constrain_def)
  have b: "Dpad_handleTouchMove pad0 padDragging [(1, 150, 100)] (Some padRect) =
     (padDragging, [PositionChange (53 / 2) 62])"
    by (simp add: Dpad_handleTouchMove_def padDragging_def pad0_def constrain_def)
  have c: "dragMargin (buttonSize aButton) (containerWidth aButton) (containerHeight aButton) = 25 / 4"
    "buttonSize aButton \<le> min (containerWidth aButton) (containerHeight aButton)"
    "0 < containerWidth aButton" "0 < containerHeight aButton"
    "dragMargin (dpad_size pad0) (dpad_containerWidth pad0) (dpad_containerHeight pad0) = 45 / 2"
    "dpad_size pad0 \<le> min (dpad_containerWidth pad0) (dpad_containerHeight pad0)"
    "0 < dpad_containerWidth pad0" "0 < dpad_containerHeight pad0"
    by (simp_all add: aButton_def pad0_def dragMargin_def)
  from C4_drag_position_bounds [of "375 / 4" "25 / 4" aButton "Touch_init\<lparr>isDraggingRef := True\<rparr>" 500 8
      "53 / 2" 62 pad0 padDragging "[(1, 150, 100)]" "Some padRect"] a b c
  show ?thesis by simp
qed

subsection \<open>The pressed set of the container\<close>

lemma handleRelease_fields [simp]:
  "isRunning (fst (handleRelease D c bt)) = isRunning c"
  "controls (fst (handleRelease D c bt)) = controls c"
  "tapTimers (fst (handleRelease D c bt)) = tapTimers c"
  by (simp_all add: handleRelease_def split: option.split)

lemma releaseEach_fields [simp]:
  "isRunning (fst (releaseEach D c bts)) = isRunning c"
  "controls (fst (releaseEach D c bts)) = controls c"
  "tapTimers (fst (releaseEach D c bts)) = tapTimers c"
  by (induction bts arbitrary: c) (simp_all add: split_beta)

lemma releaseEach_effects:
  "snd (releaseEach D c bts) = map (Dispatch keyup) (gameButtonCodes D (controls c) bts)"
proof (induction bts arbitrary: c)
  case Nil
  then show ?case by (simp add: gameButtonCodes_def)
next
  case (Cons b bts)
  have h: "snd (handleRelease D c b) = map (Dispatch keyup) (gameButtonCodes D (controls c) [b])"
    by (simp add: handleRelease_def gameButtonCodes_def getButtonKeyboardCode_def
        split: option.split)
  have g: "gameButtonCodes D (controls c) (b # bts) =
      gameButtonCodes D (controls c) [b] @ gameButtonCodes D (controls c) bts"
    by (simp add: gameButtonCodes_def)
  show ?case
  proof (cases "b \<in> set SYSTEM_BUTTONS")
    case True
    then have "gameButtonCodes D (controls c) [b] = []" by (simp add: gameButtonCodes_def)
    with True Cons.IH [of c] show ?thesis unfolding g by simp
  next
    case False
    with Cons.IH [of "fst (handleRelease D c b)"] h show ?thesis
      unfolding g by (simp add: split_beta)
  qed
qed

lemma releaseAllEffect_fields [simp]:
  "isRunning (fst (releaseAllEffect D c)) = isRunning c"
  "controls (fst (releaseAllEffect D c)) = controls c"
  "tapTimers (fst (releaseAllEffect D c)) = tapTimers c"
  by (simp_all add: releaseAllEffect_def split_beta)

lemma releaseAllEffect_stopped:
  "\<not> isRunning c \<Longrightarrow> pressedButtons (fst (releaseAllEffect D c)) = []"
  by (simp add: releaseAllEffect_def split_beta)

lemma releaseAllEffect_effects:
  "\<not> isRunning c \<Longrightarrow>
   snd (releaseAllEffect D c) = map (Dispatch keyup) (gameButtonCodes D (controls c) (pressedButtons c))"
  by (simp add: releaseAllEffect_def split_beta releaseEach_effects) (simp add: gameButtonCodes_def)

lemma list_all_Set_add: "list_all P xs \<Longrightarrow> P x \<Longrightarrow> list_all P (Set_add x xs)"
  by (simp add: Set_add_def)

lemma list_all_Set_delete: "list_all P xs \<Longrightarrow> list_all P (Set_delete x xs)"
  by (induction xs) (simp_all add: Set_delete_def)

lemma mapped_handlePress:
  "pressedMapped D ctl c \<Longrightarrow> pressedMapped D ctl (fst (handlePress D c bt))"
  by (auto simp: pressedMapped_def handlePress_def Let_def getButtonKeyboardCode_def mappedCode_def
      intro!: list_all_Set_add split: option.splits)

lemma mapped_handlePressDown:
  "pressedMapped D ctl c \<Longrightarrow> pressedMapped D ctl (fst (handlePressDown D c bt))"
  by (auto simp: pressedMapped_def handlePressDown_def getButtonKeyboardCode_def mappedCode_def
      intro!: list_all_Set_add split: option.splits)

lemma mapped_handleRelease:
  "pressedMapped D ctl c \<Longrightarrow> pressedMapped D ctl (fst (handleRelease D c bt))"
  by (auto simp: pressedMapped_def handleRelease_def intro!: list_all_Set_delete
      split: option.splits)

lemma mapped_tapTimerFire:
  "pressedMapped D ctl c \<Longrightarrow> pressedMapped D ctl (fst (tapTimerFire c))"
  by (auto simp: pressedMapped_def tapTimerFire_def intro!: list_all_Set_delete
      split: list.splits)

lemma mapped_afterRender:
  "pressedMapped D ctl (fst r) \<Longrightarrow> pressedMapped D ctl (fst (afterRender D c r))"
  by (cases "fst r = c")
    (auto simp: pressedMapped_def afterRender_def releaseAllEffect_def split_beta)

lemma mapped_setIsRunning:
  "pressedMapped D ctl c \<Longrightarrow> pressedMapped D ctl (fst (setIsRunning D c r))"
  unfolding setIsRunning_def by (rule mapped_afterRender) (simp add: pressedMapped_def)

lemma mapped_Container_step:
  "pressedMapped D ctl c \<Longrightarrow> pressedMapped D ctl (fst (Container_step D c ev))"
  by (cases ev)
    (simp_all add: mapped_afterRender mapped_handlePress mapped_handlePressDown
      mapped_handleRelease mapped_tapTimerFire mapped_setIsRunning)

lemma mapped_Container_run:
  "pressedMapped D ctl c \<Longrightarrow> pressedMapped D ctl (fst (Container_run D c evs))"
proof (induction evs arbitrary: c)
  case Nil
  then show ?case by simp
next
  case (Cons ev evs)
  from Cons.prems have "pressedMapped D ctl (fst (Container_step D c ev))"
    by (rule mapped_Container_step)
  from Cons.IH [OF this] show ?case by (simp add: split_beta Let_def)
qed

lemma mapped_gameButtonCodes:
  assumes "pressedMapped D ctl c" and "bt \<in> set (pressedButtons c)" "bt \<notin> set SYSTEM_BUTTONS"
  shows "\<exists>k. getButtonKeyboardCode D c bt = Some k \<and> k \<noteq> [] \<and>
             k \<in> set (gameButtonCodes D ctl (pressedButtons c))"
proof -
  from assms(1,2) have c: "controls c = ctl" and "mappedCode D ctl bt"
    by (simp_all add: pressedMapped_def list_all_iff)
  then obtain k where k: "getKeyboardCode D bt ctl = Some k" "k \<noteq> []"
    by (auto simp: mappedCode_def split: option.splits)
  with assms(2,3) have "k \<in> set (gameButtonCodes D ctl (pressedButtons c))"
    by (force simp: gameButtonCodes_def)
  with k c show ?thesis by (simp add: getButtonKeyboardCode_def)
qed

text \<open>
  Claim C5, amended. When \<open>isRunning\<close> goes from true to false, the pressed set of the
  container is emptied and the events dispatched are exactly one keyup for the code of
  every button of the pressed set that is not a system button, in the order of the set,
  and nothing else; in every state the container reaches, every button of the pressed set
  has a code, so every game button of the set gets its keyup. The pending tap timers stay;
  the tap timer of a system button is started with 100 ms by the press, and when it fires
  it dispatches its keyup whatever \<open>isRunning\<close> is.
\<close>

theorem C5_stop_releases_pressed_set:
  "(isRunning c \<and> setIsRunning D c False = (c', es) \<longrightarrow>
      pressedButtons c' = [] \<and> \<not> isRunning c' \<and> tapTimers c' = tapTimers c \<and>
      es = map (Dispatch keyup) (gameButtonCodes D (controls c) (pressedButtons c))) \<and>
   (gb \<in> set (pressedButtons (fst (Container_run D (Container_init r ctl) evs))) \<and>
    gb \<notin> set SYSTEM_BUTTONS \<longrightarrow>
      (\<exists>k. getButtonKeyboardCode D (fst (Container_run D (Container_init r ctl) evs)) gb = Some k \<and>
           k \<noteq> [] \<and>
           k \<in> set (gameButtonCodes D ctl
                  (pressedButtons (fst (Container_run D (Container_init r ctl) evs)))))) \<and>
   (tapTimers c = (sb, code, delay) # rest \<longrightarrow>
      tapTimerFire c =
        (c\<lparr>tapTimers := rest, pressedButtons := Set_delete sb (pressedButtons c)\<rparr>,
         [Dispatch keyup code])) \<and>
   (sb \<in> set SYSTEM_BUTTONS \<and> getButtonKeyboardCode D c sb = Some k \<and> k \<noteq> [] \<longrightarrow>
      handlePress D c sb =
        (c\<lparr>pressedButtons := Set_add sb (pressedButtons c),
           tapTimers := tapTimers c @ [(sb, k, 100)]\<rparr>,
         [Dispatch keydown k]))"
proof (intro conjI impI)
  assume a: "isRunning c \<and> setIsRunning D c False = (c', es)"
  define c0 where "c0 = c\<lparr>isRunning := False\<rparr>"
  from a have "isRunning c0 \<noteq> isRunning c" by (simp add: c0_def)
  then have "c0 \<noteq> c" by auto
  with a have r: "releaseAllEffect D c0 = (c', es)"
    by (simp add: setIsRunning_def afterRender_def c0_def split_beta)
  have n: "\<not> isRunning c0" by (simp add: c0_def)
  from r have c': "c' = fst (releaseAllEffect D c0)" and es: "es = snd (releaseAllEffect D c0)"
    by simp_all
  show "pressedButtons c' = []" unfolding c' using n by (rule releaseAllEffect_stopped)
  show "\<not> isRunning c'" "tapTimers c' = tapTimers c"
    unfolding c' by (simp_all add: c0_def)
  show "es = map (Dispatch keyup) (gameButtonCodes D (controls c) (pressedButtons c))"
    unfolding es releaseAllEffect_effects [OF n] by (simp add: c0_def)
next
  assume a: "gb \<in> set (pressedButtons (fst (Container_run D (Container_init r ctl) evs))) \<and>
    gb \<notin> set SYSTEM_BUTTONS"
  have "pressedMapped D ctl (Container_init r ctl)"
    by (simp add: pressedMapped_def Container_init_def)
  then have "pressedMapped D ctl (fst (Container_run D (Container_init r ctl) evs))"
    by (rule mapped_Container_run)
  with a show "\<exists>k. getButtonKeyboardCode D (fst (Container_run D (Container_init r ctl) evs)) gb = Some k \<and>
           k \<noteq> [] \<and>
           k \<in> set (gameButtonCodes D ctl
                  (pressedButtons (fst (Container_run D (Container_init r ctl) evs))))"
    by (intro mapped_gameButtonCodes) simp_all
next
  assume "tapTimers c = (sb, code, delay) # rest"
  then show "tapTimerFire c =
        (c\<lparr>tapTimers := rest, pressedButtons := Set_delete sb (pressedButtons c)\<rparr>,
         [Dispatch keyup code])"
    by (simp add: tapTimerFire_def)
next
  assume "sb \<in> set SYSTEM_BUTTONS \<and> getButtonKeyboardCode D c sb = Some k \<and> k \<noteq> []"
  then show "handlePress D c sb =
        (c\<lparr>pressedButtons := Set_add sb (pressedButtons c),
           tapTimers := tapTimers c @ [(sb, k, 100)]\<rparr>,
         [Dispatch keydown k])"
    by (simp add: handlePress_def)
qed

text \<open>
  Claim C5, as stated, fails for the directions of the pad. The pad has no \<open>isRunning\<close>
  input and its directions are not in the pressed set of the container: with \<open>right\<close> held
  on the pad, the game button \<open>a\<close> held and the tap of \<open>start\<close> pending, the change of
  \<open>isRunning\<close> to false dispatches the keyup of \<open>a\<close> only, and the game key \<open>ArrowRight\<close> is
  still down.
\<close>

theorem C5_pad_direction_stays_held_counterexample:
  "Dpad_run pad0 Dpad_init [DTouchStart 1 160 100 (Some padRect)] =
     (rightHeldPad, [Vibrate [5], Dispatch keydown ''ArrowRight'']) \<and>
   Container_run exampleDefaults (Container_init True None) [CPressDown ''a'', CPress ''start''] =
     (heldContainer, [Dispatch keydown ''KeyX'', Dispatch keydown ''Enter'']) \<and>
   isRunning heldContainer \<and>
   setIsRunning exampleDefaults heldContainer False =
     (stoppedContainer, [Dispatch keyup ''KeyX'']) \<and>
   heldKeys []
     ([Vibrate [5], Dispatch keydown ''ArrowRight'']
      @ [Dispatch keydown ''KeyX'', Dispatch keydown ''Enter'']
      @ snd (setIsRunning exampleDefaults heldContainer False)) = [''ArrowRight'', ''Enter'']"
proof -
  have g: "getDirectionsFromTouch 160 100 padRect = [Right]"
    by (simp add: getDirectionsFromTouch_def padRect_def sqrt_less_iff Math_atan2_def
        Let_def Set_add_def)
  have p: "Dpad_run pad0 Dpad_init [DTouchStart 1 160 100 (Some padRect)] =
     (rightHeldPad, [Vibrate [5], Dispatch keydown ''ArrowRight''])"
    by (simp add: Dpad_handleTouchStart_def g Let_def CENTER_TOUCH_RADIUS_def)
      (simp add: pad0_def padRect_def Dpad_init_def Dpad_setTimeout_def sqrt_less_iff
        updateDirections_def engageKey_def releaseKey_def getKeyCode_def rightHeldPad_def)
  have r: "Container_run exampleDefaults (Container_init True None) [CPressDown ''a'', CPress ''start''] =
     (heldContainer, [Dispatch keydown ''KeyX'', Dispatch keydown ''Enter''])"
    by (simp add: Container_init_def heldContainer_def handlePressDown_def handlePress_def
        SYSTEM_BUTTONS_def getButtonKeyboardCode_def getKeyboardCode_def exampleDefaults_def
        Set_add_def afterRender_def releaseAllEffect_def)
  have a: "setIsRunning exampleDefaults heldContainer False =
     (stoppedContainer, [Dispatch keyup ''KeyX''])"
    by (simp add: setIsRunning_def afterRender_def releaseAllEffect_def heldContainer_def
        SYSTEM_BUTTONS_def handleRelease_def getButtonKeyboardCode_def getKeyboardCode_def
        exampleDefaults_def Set_delete_def stoppedContainer_def)
  have h: "heldKeys []
     ([Vibrate [5], Dispatch keydown ''ArrowRight'']
      @ [Dispatch keydown ''KeyX'', Dispatch keydown ''Enter'']
      @ snd (setIsRunning exampleDefaults heldContainer False)) = [''ArrowRight'', ''Enter'']"
    unfolding a by (simp add: Set_add_def Set_delete_def)
  have i: "isRunning heldContainer" by (simp add: heldContainer_def)
  from p r i a h show ?thesis by blast
qed

theorem C5_stop_releases_pressed_set_witness:
  "isRunning heldContainer \<and>
   setIsRunning exampleDefaults heldContainer False =
     (stoppedContainer, [Dispatch keyup ''KeyX'']) \<and>
   pressedButtons stoppedContainer = [] \<and> \<not> isRunning stoppedContainer \<and>
   tapTimers stoppedContainer = tapTimers heldContainer \<and>
   [Dispatch keyup ''KeyX''] =
     map (Dispatch keyup)
       (gameButtonCodes exampleDefaults (controls heldContainer) (pressedButtons heldContainer)) \<and>
   Container_run exampleDefaults (Container_init True None) [CPressDown ''a'', CPress ''start''] =
     (heldContainer, [Dispatch keydown ''KeyX'', Dispatch keydown ''Enter'']) \<and>
   ''a'' \<in> set (pressedButtons heldContainer) \<and> ''a'' \<notin> set SYSTEM_BUTTONS \<and>
   getButtonKeyboardCode exampleDefaults heldContainer ''a'' = Some ''KeyX'' \<and>
   ''KeyX'' \<in> set (gameButtonCodes exampleDefaults None (pressedButtons heldContainer)) \<and>
   tapTimers stoppedContainer = [(''start'', ''Enter'', 100)] \<and>
   tapTimerFire stoppedContainer =
     (stoppedContainer\<lparr>tapTimers := [],
        pressedButtons := Set_delete ''start'' (pressedButtons stoppedContainer)\<rparr>,
      [Dispatch keyup ''Enter'']) \<and>
   ''start'' \<in> set SYSTEM_BUTTONS \<and>
   getButtonKeyboardCode exampleDefaults (Container_init False None) ''start'' = Some ''Enter'' \<and>
   handlePress exampleDefaults (Container_init False None) ''start'' =
     ((Container_init False None)\<lparr>
        pressedButtons := Set_add ''start'' (pressedButtons (Container_init False None)),
        tapTimers := tapTimers (Container_init False None) @ [(''start'', ''Enter'', 100)]\<rparr>,
      [Dispatch keydown ''Enter'']) \<and>
   Container_run exampleDefaults (Container_init True None)
     [CSetIsRunning False, CPress ''start'', CTapTimerFire] =
     (Container_init False None, [Dispatch keydown ''Enter'', Dispatch keyup ''Enter''])"
proof -
  have r: "Container_run exampleDefaults (Container_init True None) [CPressDown ''a'', CPress ''start''] =
     (heldContainer, [Dispatch keydown ''KeyX'', Dispatch keydown ''Enter''])"
    by (simp add: Container_init_def heldContainer_def handlePressDown_def handlePress_def
        SYSTEM_BUTTONS_def getButtonKeyboardCode_def getKeyboardCode_def exampleDefaults_def
        Set_add_def afterRender_def releaseAllEffect_def)
  have a: "setIsRunning exampleDefaults heldContainer False =
     (stoppedContainer, [Dispatch keyup ''KeyX''])"
    by (simp add: setIsRunning_def afterRender_def releaseAllEffect_def heldContainer_def
        SYSTEM_BUTTONS_def handleRelease_def getButtonKeyboardCode_def getKeyboardCode_def
        exampleDefaults_def Set_delete_def stoppedContainer_def)
  have b: "isRunning heldContainer"
    "''a'' \<in> set (pressedButtons heldContainer)" "''a'' \<notin> set SYSTEM_BUTTONS"
    "''start'' \<in> set SYSTEM_BUTTONS" "''Enter'' \<noteq> []" "''KeyX'' \<noteq> []"
    "getButtonKeyboardCode exampleDefaults heldContainer ''a'' = Some ''KeyX''"
    "getButtonKeyboardCode exampleDefaults (Container_init False None) ''start'' = Some ''Enter''"
    by (simp_all add: heldContainer_def Container_init_def SYSTEM_BUTTONS_def
        getButtonKeyboardCode_def getKeyboardCode_def exampleDefaults_def)
  have t: "tapTimers stoppedContainer = [(''start'', ''Enter'', 100)]"
    by (simp add: stoppedContainer_def)
  have q: "Container_run exampleDefaults (Container_init True None)
     [CSetIsRunning False, CPress ''start'', CTapTimerFire] =
     (Container_init False None, [Dispatch keydown ''Enter'', Dispatch keyup ''Enter''])"
    by (simp add: Container_init_def handlePress_def tapTimerFire_def
        SYSTEM_BUTTONS_def getButtonKeyboardCode_def getKeyboardCode_def exampleDefaults_def
        Set_add_def Set_delete_def setIsRunning_def afterRender_def releaseAllEffect_def)
  have f: "fst (Container_run exampleDefaults (Container_init True None)
      [CPressDown ''a'', CPress ''start'']) = heldContainer"
    unfolding r by simp
  note T = C5_stop_releases_pressed_set [where D = exampleDefaults and c = heldContainer
      and c' = stoppedContainer and es = "[Dispatch keyup ''KeyX'']"
      and gb = "''a''" and r = True and ctl = None
      and evs = "[CPressDown ''a'', CPress ''start'']"
      and sb = "''start''" and code = "''Enter''" and delay = 100
      and rest = "[(''start'', ''Enter'', 100)]" and k = "''Enter''", unfolded f]
  note U = C5_stop_releases_pressed_set [where D = exampleDefaults and c = stoppedContainer
      and sb = "''start''" and code = "''Enter''" and delay = 100 and rest = "[]"]
  note V = C5_stop_releases_pressed_set [where D = exampleDefaults
      and c = "Container_init False None" and sb = "''start''" and k = "''Enter''"]
  from T [THEN conjunct1] a b(1)
  have 1: "pressedButtons stoppedContainer = [] \<and> \<not> isRunning stoppedContainer \<and>
     tapTimers stoppedContainer = tapTimers heldContainer \<and>
     [Dispatch keyup ''KeyX''] =
       map (Dispatch keyup)
         (gameButtonCodes exampleDefaults (controls heldContainer) (pressedButtons heldContainer))"
    by blast
  from T [THEN conjunct2, THEN conjunct1] b
  have 2: "''KeyX'' \<in> set (gameButtonCodes exampleDefaults None (pressedButtons heldContainer))"
    by auto
  from U [THEN conjunct2, THEN conjunct2, THEN conjunct1] t
  have 3: "tapTimerFire stoppedContainer =
     (stoppedContainer\<lparr>tapTimers := [],
        pressedButtons := Set_delete ''start'' (pressedButtons stoppedContainer)\<rparr>,
      [Dispatch keyup ''Enter''])"
    by blast
  from V [THEN conjunct2, THEN conjunct2, THEN conjunct2] b
  have 4: "handlePress exampleDefaults (Container_init False None) ''start'' =
     ((Container_init False None)\<lparr>
        pressedButtons := Set_add ''start'' (pressedButtons (Container_init False None)),
        tapTimers := tapTimers (Container_init False None) @ [(''start'', ''Enter'', 100)]\<rparr>,
      [Dispatch keydown ''Enter''])"
    by blast
  from 1 2 3 4 a b t r q show ?thesis by blast
qed

text \<open>
  Claim C6, amended. Press-down for a game button already in the pressed set, and release
  for a button not in it, leave the pressed set (the whole container state) unchanged, and
  a second press-down or release leaves the state as the first one did; the keyboard
  event is dispatched all the same, a keydown by every press-down while the game runs and
  a keyup by every release of a mapped game button.
\<close>

theorem C6_press_release_state_idempotent:
  "(isRunning c \<and> bt \<notin> set SYSTEM_BUTTONS \<and> getButtonKeyboardCode D c bt = Some k \<and>
    k \<noteq> [] \<and> bt \<in> set (pressedButtons c) \<longrightarrow>
      handlePressDown D c bt = (c, [Dispatch keydown k])) \<and>
   (bt \<notin> set SYSTEM_BUTTONS \<and> getButtonKeyboardCode D c bt = Some k \<and> k \<noteq> [] \<and>
    bt \<notin> set (pressedButtons c) \<longrightarrow>
      handleRelease D c bt = (c, [Dispatch keyup k])) \<and>
   fst (handlePressDown D (fst (handlePressDown D c bt)) bt) = fst (handlePressDown D c bt) \<and>
   fst (handleRelease D (fst (handleRelease D c bt)) bt) = fst (handleRelease D c bt)"
proof (intro conjI impI)
  assume "isRunning c \<and> bt \<notin> set SYSTEM_BUTTONS \<and> getButtonKeyboardCode D c bt = Some k \<and>
    k \<noteq> [] \<and> bt \<in> set (pressedButtons c)"
  then show "handlePressDown D c bt = (c, [Dispatch keydown k])"
    by (simp add: handlePressDown_def)
next
  assume "bt \<notin> set SYSTEM_BUTTONS \<and> getButtonKeyboardCode D c bt = Some k \<and> k \<noteq> [] \<and>
    bt \<notin> set (pressedButtons c)"
  then show "handleRelease D c bt = (c, [Dispatch keyup k])"
    by (simp add: handleRelease_def)
next
  show "fst (handlePressDown D (fst (handlePressDown D c bt)) bt) = fst (handlePressDown D c bt)"
    by (simp add: handlePressDown_def getButtonKeyboardCode_def Set_add_def split: option.split)
next
  show "fst (handleRelease D (fst (handleRelease D c bt)) bt) = fst (handleRelease D c bt)"
    by (simp add: handleRelease_def getButtonKeyboardCode_def Set_delete_def split: option.split)
qed

text \<open>
  Claim C6, as stated, fails: press-down for the held button \<open>a\<close> dispatches one more
  keydown, and release for the button \<open>a\<close> that is not held dispatches a keyup.
\<close>

theorem C6_redundant_dispatch_counterexample:
  "''a'' \<in> set (pressedButtons heldContainer) \<and>
   handlePressDown exampleDefaults heldContainer ''a'' = (heldContainer, [Dispatch keydown ''KeyX'']) \<and>
   ''a'' \<notin> set (pressedButtons runningContainer) \<and>
   handleRelease exampleDefaults runningContainer ''a'' = (runningContainer, [Dispatch keyup ''KeyX''])"
  by (simp add: heldContainer_def runningContainer_def handlePressDown_def handleRelease_def
      SYSTEM_BUTTONS_def getButtonKeyboardCode_def getKeyboardCode_def exampleDefaults_def)

theorem C6_press_release_state_idempotent_witness:
  "isRunning heldContainer \<and> ''a'' \<notin> set SYSTEM_BUTTONS \<and>
   getButtonKeyboardCode exampleDefaults heldContainer ''a'' = Some ''KeyX'' \<and>
   ''a'' \<in> set (pressedButtons heldContainer) \<and>
   handlePressDown exampleDefaults heldContainer ''a'' = (heldContainer, [Dispatch keydown ''KeyX'']) \<and>
   getButtonKeyboardCode exampleDefaults runningContainer ''a'' = Some ''KeyX'' \<and>
   ''a'' \<notin> set (pressedButtons runningContainer) \<and>
   handleRelease exampleDefaults runningContainer ''a'' = (runningContainer, [Dispatch keyup ''KeyX''])"
proof -
  have h: "isRunning heldContainer" "''a'' \<notin> set SYSTEM_BUTTONS"
    "getButtonKeyboardCode exampleDefaults heldContainer ''a'' = Some ''KeyX''"
    "''a'' \<in> set (pressedButtons heldContainer)"
    "getButtonKeyboardCode exampleDefaults runningContainer ''a'' = Some ''KeyX''"
    "''a'' \<notin> set (pressedButtons runningContainer)"
    by (simp_all add: heldContainer_def runningContainer_def SYSTEM_BUTTONS_def
        getButtonKeyboardCode_def getKeyboardCode_def exampleDefaults_def)
  from C6_press_release_state_idempotent [of heldContainer "''a''" exampleDefaults "''KeyX''"]
    C6_press_release_state_idempotent [of runningContainer "''a''" exampleDefaults "''KeyX''"] h
  show ?thesis by simp
qed

subsection \<open>The hold timer and the drag of a virtual button\<close>

lemma touchDistance_pow2:
  "touchDistance x y r =
   sqrt ((x - (rect_left r + rect_width r / 2))\<^sup>2 + (y - (rect_top r + rect_height r / 2))\<^sup>2)"
  by (simp add: touchDistance_def power2_eq_square)

lemma handleTouchStart_timers:
  "timers (fst (handleTouchStart p s clientX clientY target)) =
     (if onPositionChange p \<and>
         (case target of None \<Rightarrow> False
          | Some rect \<Rightarrow> touchDistance clientX clientY rect < buttonSize p * DRAG_CENTER_THRESHOLD)
      then timers s @ [(nextTimer s, DRAG_HOLD_DELAY, clientX, clientY)] else timers s)"
  "dragTimerRef (fst (handleTouchStart p s clientX clientY target)) =
     (if onPositionChange p \<and>
         (case target of None \<Rightarrow> False
          | Some rect \<Rightarrow> touchDistance clientX clientY rect < buttonSize p * DRAG_CENTER_THRESHOLD)
      then Some (nextTimer s) else dragTimerRef s)"
  unfolding touchDistance_pow2 handleTouchStart_def
  by (simp_all add: Let_def split: option.split)

lemma onTouchStart_only_touch:
  "te_touches e = [(i, x, y)] \<Longrightarrow>
   onTouchStart p s e target = Some (handleTouchStart p s x y target)"
  by (simp add: onTouchStart_def)

text \<open>
  Claim C7, amended. A touch-start on a virtual button by the only touch on the screen
  starts a hold timer if and only if the position callback is given and the touch is
  nearer to the centre of the button than 40% of the button's size (80% of its radius);
  the timer is started with 350 ms, it is the timer \<open>dragTimerRef\<close> names, and it starts
  drag mode when it fires on a button that is not dragging. For any such touch farther
  away no timer is started.
\<close>

theorem C7_hold_timer_armed_iff:
  "(te_touches e = [(i, x, y)] \<and> te_changedTouches e = [(i, x, y)] \<longrightarrow>
      (\<exists>s' es. onTouchStart p s e target = Some (s', es) \<and>
         (timers s' \<noteq> timers s \<longleftrightarrow>
            onPositionChange p \<and>
            (case target of None \<Rightarrow> False
             | Some rect \<Rightarrow> touchDistance x y rect < buttonSize p * 0.4)) \<and>
         (timers s' \<noteq> timers s \<longrightarrow>
            timers s' = timers s @ [(nextTimer s, 350, x, y)] \<and>
            dragTimerRef s' = Some (nextTimer s)) \<and>
         (timers s' = timers s \<longrightarrow> dragTimerRef s' = dragTimerRef s))) \<and>
   (map_of (timers s) t = Some (delay, tx, ty) \<and> \<not> isDraggingRef s \<longrightarrow>
      isDraggingRef (fst (timerFire p s t)))"
proof (intro conjI impI)
  assume a: "te_touches e = [(i, x, y)] \<and> te_changedTouches e = [(i, x, y)]"
  define s' where "s' = fst (handleTouchStart p s x y target)"
  define es where "es = snd (handleTouchStart p s x y target)"
  have th: "buttonSize p * DRAG_CENTER_THRESHOLD = buttonSize p * 0.4"
    by (simp add: DRAG_CENTER_THRESHOLD_def)
  from a have 1: "onTouchStart p s e target = Some (s', es)"
    by (simp add: onTouchStart_only_touch s'_def es_def)
  have 2: "timers s' \<noteq> timers s \<longleftrightarrow>
            onPositionChange p \<and>
            (case target of None \<Rightarrow> False
             | Some rect \<Rightarrow> touchDistance x y rect < buttonSize p * 0.4)"
    unfolding s'_def handleTouchStart_timers th by simp
  have 3: "timers s' \<noteq> timers s \<longrightarrow>
            timers s' = timers s @ [(nextTimer s, 350, x, y)] \<and>
            dragTimerRef s' = Some (nextTimer s)"
    unfolding s'_def handleTouchStart_timers th by (simp add: DRAG_HOLD_DELAY_def)
  have 4: "timers s' = timers s \<longrightarrow> dragTimerRef s' = dragTimerRef s"
    unfolding s'_def handleTouchStart_timers th by simp
  from 1 2 3 4
  show "\<exists>s' es. onTouchStart p s e target = Some (s', es) \<and>
         (timers s' \<noteq> timers s \<longleftrightarrow>
            onPositionChange p \<and>
            (case target of None \<Rightarrow> False
             | Some rect \<Rightarrow> touchDistance x y rect < buttonSize p * 0.4)) \<and>
         (timers s' \<noteq> timers s \<longrightarrow>
            timers s' = timers s @ [(nextTimer s, 350, x, y)] \<and>
            dragTimerRef s' = Some (nextTimer s)) \<and>
         (timers s' = timers s \<longrightarrow> dragTimerRef s' = dragTimerRef s)"
    by blast
next
  assume "map_of (timers s) t = Some (delay, tx, ty) \<and> \<not> isDraggingRef s"
  then show "isDraggingRef (fst (timerFire p s t))"
    by (simp add: timerFire_def startDragging_def)
qed

text \<open>
  Claim C7, as stated, fails: on a button of 50 pixels (radius 25) a touch 15 pixels from
  the centre, the only touch on the screen, is farther than 40% of the radius (10 pixels),
  and the hold timer is started. And the handler measures \<open>e.touches[0]\<close>, not the touch
  that lands: with another finger already on the screen, away from the button, a touch
  at the very centre of the button starts no timer.
\<close>

theorem C7_radius_counterexample:
  "onPositionChange aButton \<and>
   \<not> touchDistance 215 400 buttonRect < spec_dragThreshold aButton \<and>
   onTouchStart aButton Touch_init (soloTouch 215 400) (Some buttonRect) =
     Some (Touch_init\<lparr>touchStartPosRef := (215, 400), timers := [(1, 350, 215, 400)],
        dragTimerRef := Some 1, nextTimer := 2\<rparr>, [PressDown ''a'']) \<and>
   touchDistance 200 400 buttonRect < spec_dragThreshold aButton \<and>
   te_changedTouches (besideOtherFinger 200 400) = [(1, 200, 400)] \<and>
   onTouchStart aButton Touch_init (besideOtherFinger 200 400) (Some buttonRect) =
     Some (Touch_init\<lparr>touchStartPosRef := (60, 600)\<rparr>, [PressDown ''a''])"
  by (simp add: aButton_def buttonRect_def touchDistance_def spec_dragThreshold_def
      soloTouch_def besideOtherFinger_def onTouchStart_def DRAG_HOLD_DELAY_def
      sqrt_less_iff handleTouchStart_def Touch_init_def DRAG_CENTER_THRESHOLD_def Let_def)

theorem C7_hold_timer_armed_iff_witness:
  "te_touches (soloTouch 215 400) = [(1, 215, 400)] \<and>
   te_changedTouches (soloTouch 215 400) = [(1, 215, 400)] \<and>
   onPositionChange aButton \<and>
   touchDistance 215 400 buttonRect < buttonSize aButton * 0.4 \<and>
   onTouchStart aButton Touch_init (soloTouch 215 400) (Some buttonRect) =
     Some (Touch_init\<lparr>touchStartPosRef := (215, 400), timers := [(1, 350, 215, 400)],
        dragTimerRef := Some 1, nextTimer := 2\<rparr>, [PressDown ''a'']) \<and>
   (\<exists>s' es. onTouchStart aButton Touch_init (soloTouch 215 400) (Some buttonRect) = Some (s', es) \<and>
      timers s' = timers Touch_init @ [(nextTimer Touch_init, 350, 215, 400)] \<and>
      dragTimerRef s' = Some (nextTimer Touch_init)) \<and>
   \<not> touchDistance 224 400 buttonRect < buttonSize aButton * 0.4 \<and>
   (\<exists>s' es. onTouchStart aButton Touch_init (soloTouch 224 400) (Some buttonRect) = Some (s', es) \<and>
      timers s' = timers Touch_init \<and> dragTimerRef s' = dragTimerRef Touch_init) \<and>
   map_of (timers (Touch_init\<lparr>touchStartPosRef := (215, 400), timers := [(1, 350, 215, 400)],
        dragTimerRef := Some 1, nextTimer := 2\<rparr>)) 1 = Some (350, 215, 400) \<and>
   timerFire aButton (Touch_init\<lparr>touchStartPosRef := (215, 400), timers := [(1, 350, 215, 400)],
        dragTimerRef := Some 1, nextTimer := 2\<rparr>) 1 =
     (Touch_init\<lparr>touchStartPosRef := (215, 400), timers := [],
        dragTimerRef := Some 1, nextTimer := 2, isDraggingRef := True,
        dragStartRef := (15, 0)\<rparr>, [Release ''a''])"
proof -
  define armed where "armed = Touch_init\<lparr>touchStartPosRef := (215, 400),
        timers := [(1, 350, 215, 400)], dragTimerRef := Some 1, nextTimer := 2\<rparr>"
  have e: "te_touches (soloTouch 215 400) = [(1, 215, 400)]"
    "te_changedTouches (soloTouch 215 400) = [(1, 215, 400)]"
    "te_touches (soloTouch 224 400) = [(1, 224, 400)]"
    "te_changedTouches (soloTouch 224 400) = [(1, 224, 400)]"
    by (simp_all add: soloTouch_def)
  have d: "onPositionChange aButton"
    "touchDistance 215 400 buttonRect < buttonSize aButton * 0.4"
    "\<not> touchDistance 224 400 buttonRect < buttonSize aButton * 0.4"
    by (simp_all add: aButton_def buttonRect_def touchDistance_def sqrt_less_iff)
  have s: "onTouchStart aButton Touch_init (soloTouch 215 400) (Some buttonRect) = Some (armed, [PressDown ''a''])"
    by (simp add: aButton_def buttonRect_def sqrt_less_iff handleTouchStart_def Touch_init_def
        DRAG_CENTER_THRESHOLD_def DRAG_HOLD_DELAY_def Let_def onTouchStart_def soloTouch_def
        armed_def)
  have m: "map_of (timers armed) 1 = Some (350, 215, 400)" "\<not> isDraggingRef armed"
    by (simp_all add: armed_def Touch_init_def)
  have f: "timerFire aButton armed 1 =
     (Touch_init\<lparr>touchStartPosRef := (215, 400), timers := [],
        dragTimerRef := Some 1, nextTimer := 2, isDraggingRef := True,
        dragStartRef := (15, 0)\<rparr>, [Release ''a''])"
    by (simp add: armed_def timerFire_def clearTimeout_def startDragging_def aButton_def Touch_init_def)
  note A = C7_hold_timer_armed_iff [where e = "soloTouch 215 400" and i = 1 and x = 215
      and y = 400 and p = aButton and s = Touch_init and target = "Some buttonRect"]
  note B = C7_hold_timer_armed_iff [where e = "soloTouch 224 400" and i = 1 and x = 224
      and y = 400 and p = aButton and s = Touch_init and target = "Some buttonRect"]
  note C = C7_hold_timer_armed_iff [where s = armed and t = 1 and delay = 350 and tx = 215
      and ty = 400 and p = aButton]
  from A [THEN conjunct1] e d
  have 1: "\<exists>s' es. onTouchStart aButton Touch_init (soloTouch 215 400) (Some buttonRect) = Some (s', es) \<and>
      timers s' = timers Touch_init @ [(nextTimer Touch_init, 350, 215, 400)] \<and>
      dragTimerRef s' = Some (nextTimer Touch_init)"
    by auto
  from B [THEN conjunct1] e d
  have 2: "\<exists>s' es. onTouchStart aButton Touch_init (soloTouch 224 400) (Some buttonRect) = Some (s', es) \<and>
      timers s' = timers Touch_init \<and> dragTimerRef s' = dragTimerRef Touch_init"
    by auto
  from C [THEN conjunct2] m have 3: "isDraggingRef (fst (timerFire aButton armed 1))"
    by blast
  from 1 2 3 e d s m f show ?thesis unfolding armed_def by blast
qed

lemma clearDragTimer_fields [simp]:
  "isDraggingRef (clearDragTimer s) = isDraggingRef s"
  "dragTimerRef (clearDragTimer s) = None"
  "touchStartPosRef (clearDragTimer s) = touchStartPosRef s"
  "timers (clearDragTimer s) =
     (case dragTimerRef s of None \<Rightarrow> timers s | Some t \<Rightarrow> clearTimeout t (timers s))"
  by (simp_all add: clearDragTimer_def split: option.split)

lemma startDragging_fields [simp]:
  "isDraggingRef (fst (startDragging p s x y))"
  "dragTimerRef (fst (startDragging p s x y)) = dragTimerRef s"
  "timers (fst (startDragging p s x y)) = timers s"
  "snd (startDragging p s x y) =
     (if vibrate p then [Vibrate [10, 30, 10]] else [])
       @ (if \<not> isSystemButton p then [Release (buttonType p)] else [])"
  by (simp_all add: startDragging_def)

lemma handleTouchMove_beyond:
  assumes pc: "onPositionChange p" and nd: "\<not> isDraggingRef s"
    and far: "sqrt ((clientX - fst (touchStartPosRef s))\<^sup>2
                  + (clientY - snd (touchStartPosRef s))\<^sup>2) > DRAG_MOVE_THRESHOLD"
  shows "\<exists>px py. handleTouchMove p s clientX clientY =
     (fst (startDragging p (clearDragTimer s) clientX clientY),
      snd (startDragging p (clearDragTimer s) clientX clientY) @ [PositionChange px py])"
proof -
  define d where "d = sqrt ((clientX - fst (touchStartPosRef s))\<^sup>2
                  + (clientY - snd (touchStartPosRef s))\<^sup>2)"
  have c: "(if d > DRAG_MOVE_THRESHOLD
            then startDragging p (clearDragTimer s) clientX clientY else (s, [])) =
           startDragging p (clearDragTimer s) clientX clientY"
    by (rule if_P) (use far d_def in simp)
  have "handleTouchMove p s clientX clientY =
     (let (s1, e1) = (if d > DRAG_MOVE_THRESHOLD
            then startDragging p (clearDragTimer s) clientX clientY else (s, []))
      in if isDraggingRef s1 \<and> onPositionChange p
         then
           (let newX = clientX - fst (dragStartRef s1);
                newY = clientY - snd (dragStartRef s1);
                newXPercent = (newX / containerWidth p) * 100;
                newYPercent = (newY / containerHeight p) * 100;
                margin = (buttonSize p / 2 / min (containerWidth p) (containerHeight p)) * 100
            in (s1, e1 @ [PositionChange (constrain margin newXPercent) (constrain margin newYPercent)]))
         else (s1, e1))"
    unfolding handleTouchMove_def d_def using pc nd by (simp add: Let_def)
  then show ?thesis
    unfolding c using pc by (simp add: Let_def split_beta)
qed

text \<open>
  On a virtual button with a position callback that is not dragging, a touch-move whose
  point is farther than 10 pixels from the recorded touch-start point starts drag mode at
  once: the timer \<open>dragTimerRef\<close> names is cleared, the release callback is called for a
  button that is not a system button, and a position is reported; this does not depend on
  where the touch started. No timer stays pending when every pending timer is the one
  \<open>dragTimerRef\<close> names.
\<close>

lemma handleTouchMove_starts_drag:
  assumes "onPositionChange p" "\<not> isDraggingRef s"
    and "sqrt ((clientX - fst (touchStartPosRef s))\<^sup>2
             + (clientY - snd (touchStartPosRef s))\<^sup>2) > 10"
  shows "isDraggingRef (fst (handleTouchMove p s clientX clientY))"
    and "dragTimerRef (fst (handleTouchMove p s clientX clientY)) = None"
    and "timers (fst (handleTouchMove p s clientX clientY)) =
        (case dragTimerRef s of None \<Rightarrow> timers s | Some t \<Rightarrow> clearTimeout t (timers s))"
    and "list_all (\<lambda>e. dragTimerRef s = Some (fst e)) (timers s) \<Longrightarrow>
         timers (fst (handleTouchMove p s clientX clientY)) = []"
    and "butlast (snd (handleTouchMove p s clientX clientY)) =
        (if vibrate p then [Vibrate [10, 30, 10]] else [])
          @ (if \<not> isSystemButton p then [Release (buttonType p)] else [])"
    and "isPositionChange (last (snd (handleTouchMove p s clientX clientY)))"
proof -
  from assms(3) have far: "sqrt ((clientX - fst (touchStartPosRef s))\<^sup>2
        + (clientY - snd (touchStartPosRef s))\<^sup>2) > DRAG_MOVE_THRESHOLD"
    unfolding DRAG_MOVE_THRESHOLD_def by blast
  from handleTouchMove_beyond [OF assms(1,2) far] obtain px py where
    eq: "handleTouchMove p s clientX clientY =
     (fst (startDragging p (clearDragTimer s) clientX clientY),
      snd (startDragging p (clearDragTimer s) clientX clientY) @ [PositionChange px py])"
    by blast
  show "isDraggingRef (fst (handleTouchMove p s clientX clientY))"
    unfolding eq by simp
  show "dragTimerRef (fst (handleTouchMove p s clientX clientY)) = None"
    unfolding eq by simp
  show t: "timers (fst (handleTouchMove p s clientX clientY)) =
        (case dragTimerRef s of None \<Rightarrow> timers s | Some t \<Rightarrow> clearTimeout t (timers s))"
    unfolding eq by simp
  show "butlast (snd (handleTouchMove p s clientX clientY)) =
        (if vibrate p then [Vibrate [10, 30, 10]] else [])
          @ (if \<not> isSystemButton p then [Release (buttonType p)] else [])"
    unfolding eq by (simp add: butlast_append)
  show "isPositionChange (last (snd (handleTouchMove p s clientX clientY)))"
    unfolding eq by simp
  assume l: "list_all (\<lambda>e. dragTimerRef s = Some (fst e)) (timers s)"
  show "timers (fst (handleTouchMove p s clientX clientY)) = []"
  proof (cases "dragTimerRef s")
    case None
    with l have "timers s = []" by (cases "timers s") simp_all
    with None show ?thesis unfolding t by simp
  next
    case (Some t')
    with l have "list_all (\<lambda>e. fst e = t') (timers s)" by (auto simp: list_all_iff)
    then have "clearTimeout t' (timers s) = []" by (rule clearTimeout_all)
    with Some show ?thesis unfolding t by simp
  qed
qed

text \<open>
  Claim C10 does not hold of the code when touches overlap. A touch-start at the centre
  of the button \<open>a\<close> starts hold timer 1; a second touch-start while the first finger is
  down starts timer 2, and \<open>dragTimerRef\<close> is overwritten without timer 1 being cleared.
  The first finger then moves 20 pixels: drag mode starts and \<open>clearDragTimer\<close> clears
  timer 2 only, so that timer 1 is still pending after the move. When both fingers
  have left and timer 1 fires, the button enters drag mode with no touch on it and the
  release callback is called once more. And since the move is measured on \<open>e.touches[0]\<close>,
  a finger that moves 30 pixels on the button while an older touch rests elsewhere starts
  no drag.
\<close>

theorem C10_overlapping_touches_keep_timer:
  "Hook_run aButton Touch_init overlappingStarts =
     Some (\<lparr>isDraggingRef = False, dragStartRef = (0, 0), dragTimerRef = Some 2,
        touchStartPosRef = (200, 400), timers = [(1, 350, 200, 400), (2, 350, 200, 400)],
        nextTimer = 3\<rparr>,
      [PressDown ''a'', PressDown ''a'']) \<and>
   Hook_run aButton Touch_init (overlappingStarts @ [moveFirstFinger]) =
     Some (\<lparr>isDraggingRef = True, dragStartRef = (20, 0), dragTimerRef = None,
        touchStartPosRef = (200, 400), timers = [(1, 350, 200, 400)], nextTimer = 3\<rparr>,
      [PressDown ''a'', PressDown ''a'', Release ''a'', PositionChange 50 50]) \<and>
   Hook_run aButton Touch_init
       (overlappingStarts @ [moveFirstFinger, HTouchEnd, HTouchEnd, HTimerFire 1]) =
     Some (\<lparr>isDraggingRef = True, dragStartRef = (0, 0), dragTimerRef = None,
        touchStartPosRef = (200, 400), timers = [], nextTimer = 3\<rparr>,
      [PressDown ''a'', PressDown ''a'', Release ''a'', PositionChange 50 50,
       Release ''a'', Release ''a'']) \<and>
   Hook_run aButton Touch_init
       [HTouchStart (besideOtherFinger 200 400) (Some buttonRect),
        HTouchMove (besideOtherFinger 230 400)] =
     Some (Touch_init\<lparr>touchStartPosRef := (60, 600)\<rparr>, [PressDown ''a''])"
  by (simp add: overlappingStarts_def moveFirstFinger_def besideOtherFinger_def
      onTouchStart_def onTouchMove_def aButton_def buttonRect_def Touch_init_def
      handleTouchStart_def handleTouchMove_def handleTouchEnd_def timerFire_def
      startDragging_def clearDragTimer_def clearTimeout_def
      DRAG_CENTER_THRESHOLD_def DRAG_MOVE_THRESHOLD_def DRAG_HOLD_DELAY_def
      sqrt_less_iff less_sqrt_iff Let_def constrain_def)

end
